theory Spec2Isabelle
  imports Main
begin

section \<open>Data model\<close>

text \<open>
  \<^verbatim>\<open>api.WireguardPeer\<close>, with the fields the repository's code and tests use
  (\<^verbatim>\<open>IPv4\<close>, \<^verbatim>\<open>IPv6\<close>, \<^verbatim>\<open>Ports\<close>, \<^verbatim>\<open>Pubkey\<close>). Go's \<^verbatim>\<open>int\<close> ports are
  integers; no arithmetic is done on them.
\<close>

record WireguardPeer =
  IPv4 :: string
  IPv6 :: string
  Ports :: "int list"
  Pubkey :: string

text \<open>\<^verbatim>\<open>subscriber.WireguardEvent\<close>: an action string and the peer it is about.\<close>

record WireguardEvent =
  Action :: string
  Peer :: WireguardPeer

text \<open>
  \<^verbatim>\<open>api.API\<close> as \<^verbatim>\<open>main\<close> builds it; \<open>Client_Timeout\<close> is the
  \<^verbatim>\<open>Timeout\<close> of its \<^verbatim>\<open>http.Client\<close>, a \<^verbatim>\<open>time.Duration\<close> in nanoseconds.
\<close>

record API =
  Username :: string
  Password :: string
  BaseURL :: string
  Hostname :: string
  Client_Timeout :: int

section \<open>Effects of the main package\<close>

text \<open>
  Everything \<^verbatim>\<open>main.go\<close> does besides computing is written to one trace, in program
  order: the statsd calls (\<^verbatim>\<open>t.Send\<close>, \<^verbatim>\<open>metrics.Increment\<close>), the log lines, and
  one entry for each call of a method of the API client, the WireGuard manager and the
  Portforward manager. \<open>'k\<close> is the type of the connected keys that
  \<^verbatim>\<open>wg.UpdatePeers\<close> returns and \<^verbatim>\<open>a.PostWireguardConnections\<close> takes.
\<close>

datatype 'k effect =
    Send string
  | Increment string
  | Printf string
  | Println string
  | Call_GetWireguardPeers
  | Call_PostWireguardConnections 'k
  | Call_UpdatePeers "WireguardPeer list"
  | Call_AddPeer WireguardPeer
  | Call_RemovePeer WireguardPeer
  | Call_UpdatePortforwarding "WireguardPeer list"
  | Call_AddPortforwarding WireguardPeer
  | Call_RemovePortforwarding WireguardPeer
  | Call_UpdateSinglePeerPortforwarding WireguardPeer
  | Call_Subscribe
  | Call_NewTicker int int
  | Go_worker

text \<open>
  \<^verbatim>\<open>subscriber.Subscriber\<close> as \<^verbatim>\<open>main\<close> builds it, without its metrics client
  (whose calls are entries of the trace).
\<close>

record Subscriber =
  MQ_Username :: string
  MQ_Password :: string
  MQ_BaseURL :: string
  Channel :: string

text \<open>
  The packages \<^verbatim>\<open>api\<close>, \<^verbatim>\<open>wireguard\<close>, \<^verbatim>\<open>portforward\<close> and
  \<^verbatim>\<open>api/subscriber\<close> (and the statsd library) are called by \<^verbatim>\<open>main.go\<close> but
  their code is not part of the sources at hand, so their constructors and methods are
  parameters of the model. \<open>'w\<close> is the state the WireGuard manager owns, \<open>'p\<close> the
  state the Portforward manager owns, \<open>'r\<close> the world outside the process (control
  plane, message queue, operating system). A method returns Go's \<^verbatim>\<open>error\<close> as a
  message: \<open>Inl msg\<close> for a result with an error, \<open>Some msg\<close> for a bare error.
\<close>

record ('w, 'p, 'r, 'k) packages =
  statsd_New :: "string \<Rightarrow> 'r \<Rightarrow> string option"
  wireguard_New :: "string list \<Rightarrow> 'r \<Rightarrow> string + 'w"
  portforward_New :: "string \<Rightarrow> string \<Rightarrow> string \<Rightarrow> 'r \<Rightarrow> string + 'p"
  s_Subscribe :: "Subscriber \<Rightarrow> 'r \<Rightarrow> string option \<times> 'r"
  a_GetWireguardPeers :: "API \<Rightarrow> 'r \<Rightarrow> (string + WireguardPeer list) \<times> 'r"
  a_PostWireguardConnections :: "API \<Rightarrow> 'k \<Rightarrow> 'r \<Rightarrow> string option \<times> 'r"
  wg_UpdatePeers :: "WireguardPeer list \<Rightarrow> 'w \<Rightarrow> 'k \<times> 'w"
  wg_AddPeer :: "WireguardPeer \<Rightarrow> 'w \<Rightarrow> 'w"
  wg_RemovePeer :: "WireguardPeer \<Rightarrow> 'w \<Rightarrow> 'w"
  pf_UpdatePortforwarding :: "WireguardPeer list \<Rightarrow> 'p \<Rightarrow> 'p"
  pf_AddPortforwarding :: "WireguardPeer \<Rightarrow> 'p \<Rightarrow> 'p"
  pf_RemovePortforwarding :: "WireguardPeer \<Rightarrow> 'p \<Rightarrow> 'p"
  pf_UpdateSinglePeerPortforwarding :: "WireguardPeer \<Rightarrow> 'p \<Rightarrow> 'p"

text \<open>
  The package-level variables of \<^verbatim>\<open>main.go\<close> (\<^verbatim>\<open>a\<close>, \<^verbatim>\<open>wg\<close>, \<^verbatim>\<open>pf\<close>), the
  outside world and the trace.
\<close>

record ('w, 'p, 'r, 'k) world =
  api :: API
  wg :: 'w
  pf :: 'p
  server :: 'r
  trace :: "'k effect list"

definition emit :: "'k effect \<Rightarrow> ('w, 'p, 'r, 'k) world \<Rightarrow> ('w, 'p, 'r, 'k) world" where
  "emit e s = s\<lparr>trace := trace s @ [e]\<rparr>"

section \<open>handleEvent\<close>

text \<open>
  \<^verbatim>\<open>func handleEvent(event subscriber.WireguardEvent)\<close>: a switch on the action
  string. Each \<^verbatim>\<open>metrics.NewTiming()\<close> \<dots> \<^verbatim>\<open>t.Send(bucket)\<close> pair is the one
  \<open>Send bucket\<close> entry after the call it times.
\<close>

definition handleEvent ::
  "('w, 'p, 'r, 'k) packages \<Rightarrow> WireguardEvent \<Rightarrow> ('w, 'p, 'r, 'k) world \<Rightarrow> ('w, 'p, 'r, 'k) world"
where
  "handleEvent m event s =
    (if Action event = ''ADD'' then
       let s1 = emit (Call_AddPeer (Peer event)) (s\<lparr>wg := wg_AddPeer m (Peer event) (wg s)\<rparr>);
           s2 = emit (Send ''add_event_add_peer_time'') s1;
           s3 = emit (Call_AddPortforwarding (Peer event))
                  (s2\<lparr>pf := pf_AddPortforwarding m (Peer event) (pf s2)\<rparr>)
       in emit (Send ''add_event_add_portforwarding_time'') s3
     else if Action event = ''REMOVE'' then
       let s1 = emit (Call_RemovePeer (Peer event))
                  (s\<lparr>wg := wg_RemovePeer m (Peer event) (wg s)\<rparr>);
           s2 = emit (Send ''remove_event_remove_peer_time'') s1;
           s3 = emit (Call_RemovePortforwarding (Peer event))
                  (s2\<lparr>pf := pf_RemovePortforwarding m (Peer event) (pf s2)\<rparr>)
       in emit (Send ''remove_event_remove_portforwarding_time'') s3
     else if Action event = ''UPDATE_PORTS'' then
       let s1 = emit (Call_UpdateSinglePeerPortforwarding (Peer event))
                  (s\<lparr>pf := pf_UpdateSinglePeerPortforwarding m (Peer event) (pf s)\<rparr>)
       in emit (Send ''update_ports_event_update_portforwarding_time'') s1
     else s)"

section \<open>synchronize\<close>

text \<open>
  \<^verbatim>\<open>func synchronize()\<close>. The deferred
  \<^verbatim>\<open>metrics.NewTiming().Send("synchronize_time")\<close> runs on every return, so it is the
  last entry of each branch.
\<close>

definition synchronize ::
  "('w, 'p, 'r, 'k) packages \<Rightarrow> ('w, 'p, 'r, 'k) world \<Rightarrow> ('w, 'p, 'r, 'k) world"
where
  "synchronize m s =
    (case a_GetWireguardPeers m (api s) (server s) of
       (Inl err, r1) \<Rightarrow>
         emit (Send ''synchronize_time'')
           (emit (Printf (''error getting peers '' @ err))
             (emit (Increment ''error_getting_peers'')
               (emit Call_GetWireguardPeers (s\<lparr>server := r1\<rparr>))))
     | (Inr peers, r1) \<Rightarrow>
         let s1 = emit (Send ''get_wireguard_peers_time'')
                    (emit Call_GetWireguardPeers (s\<lparr>server := r1\<rparr>));
             (connectedKeys, w1) = wg_UpdatePeers m peers (wg s1);
             s2 = emit (Send ''update_peers_time'')
                    (emit (Call_UpdatePeers peers) (s1\<lparr>wg := w1\<rparr>));
             s3 = emit (Send ''update_portforwarding_time'')
                    (emit (Call_UpdatePortforwarding peers)
                      (s2\<lparr>pf := pf_UpdatePortforwarding m peers (pf s2)\<rparr>))
         in (case a_PostWireguardConnections m (api s3) connectedKeys (server s3) of
               (Some err, r2) \<Rightarrow>
                 emit (Send ''synchronize_time'')
                   (emit (Printf (''error posting connections '' @ err))
                     (emit (Increment ''error_posting_connections'')
                       (emit (Call_PostWireguardConnections connectedKeys)
                         (s3\<lparr>server := r2\<rparr>))))
             | (None, r2) \<Rightarrow>
                 emit (Send ''synchronize_time'')
                   (emit (Send ''post_wireguard_connections_time'')
                     (emit (Call_PostWireguardConnections connectedKeys)
                       (s3\<lparr>server := r2\<rparr>)))))"

section \<open>main\<close>

text \<open>
  The command-line flags after \<^verbatim>\<open>envy.Parse\<close> and \<^verbatim>\<open>flag.Parse\<close>. The three
  durations are \<^verbatim>\<open>time.Duration\<close> values, in nanoseconds.
\<close>

record flags =
  interval :: int
  delay :: int
  apiTimeout :: int
  url :: string
  username :: string
  password :: string
  hostname :: string
  interfaces :: string
  portForwardingChainPrefix :: string
  portForwardingIpsetIPv4 :: string
  portForwardingIpsetIPv6 :: string
  statsdAddress :: string
  mqURL :: string
  mqUsername :: string
  mqPassword :: string
  mqChannel :: string
  version :: bool

definition Second :: int where
  "Second = 1000000000"

definition Minute :: int where
  "Minute = 60 * Second"

text \<open>The defaults the \<^verbatim>\<open>flag\<close> declarations of \<^verbatim>\<open>main\<close> give.\<close>

definition default_flags :: flags where
  "default_flags =
     \<lparr>interval = Minute, delay = Second * 45, apiTimeout = Second * 30,
      url = ''https://example.com'', username = [], password = [], hostname = [],
      interfaces = ''wg0'', portForwardingChainPrefix = ''PORTFORWARDING'',
      portForwardingIpsetIPv4 = ''PORTFORWARDING_IPV4'',
      portForwardingIpsetIPv6 = ''PORTFORWARDING_IPV6'',
      statsdAddress = ''127.0.0.1:8125'', mqURL = ''wss://example.com/mq'',
      mqUsername = [], mqPassword = [], mqChannel = ''wireguard'', version = False\<rparr>"

text \<open>\<^verbatim>\<open>strings.Split(s, sep)\<close> for a separator of one character.\<close>

fun Split :: "string \<Rightarrow> char \<Rightarrow> string list" where
  "Split [] sep = [[]]"
| "Split (x # xs) sep =
     (if x = sep then [] # Split xs sep
      else (case Split xs sep of [] \<Rightarrow> [[x]] | y # ys \<Rightarrow> (x # y) # ys))"

text \<open>The \<^verbatim>\<open>api.API\<close> and \<^verbatim>\<open>subscriber.Subscriber\<close> literals of \<^verbatim>\<open>main\<close>.\<close>

definition new_API :: "flags \<Rightarrow> API" where
  "new_API fl =
     \<lparr>Username = username fl, Password = password fl, BaseURL = url fl,
      Hostname = hostname fl, Client_Timeout = apiTimeout fl\<rparr>"

definition new_Subscriber :: "flags \<Rightarrow> Subscriber" where
  "new_Subscriber fl =
     \<lparr>MQ_Username = mqUsername fl, MQ_Password = mqPassword fl, MQ_BaseURL = mqURL fl,
      Channel = mqChannel fl\<rparr>"

text \<open>
  \<^verbatim>\<open>func (c *Client) deadline()\<close> of Go's \<^verbatim>\<open>net/http\<close>: the client puts a
  deadline on a request only when its \<^verbatim>\<open>Timeout\<close> is positive (``A Timeout of zero
  means no timeout''). This is the hard timeout of the calls made with an API client, if
  they have one.
\<close>

definition deadline :: "API \<Rightarrow> int option" where
  "deadline c = (if 0 < Client_Timeout c then Some (Client_Timeout c) else None)"

text \<open>
  How \<^verbatim>\<open>main\<close> ends up: the process has exited (\<^verbatim>\<open>os.Exit\<close>, directly or
  through \<^verbatim>\<open>log.Fatal\<close>/\<^verbatim>\<open>log.Fatalf\<close>, which exit with status 1) with what it
  did until then, or it has started the worker goroutine and serves.
\<close>

datatype ('w, 'p, 'r, 'k) process =
    is_Exited: Exited (status: int) (effects: "'k effect list")
  | is_Serving: Serving (running: "('w, 'p, 'r, 'k) world")

text \<open>
  \<^verbatim>\<open>func main()\<close> up to the start of the worker goroutine. \<open>appVersion\<close> is the
  package variable set at build time. The world the first \<^verbatim>\<open>synchronize()\<close> runs in
  has the API client, the two managers just constructed, and the log line written so far.
  What runs after the \<^verbatim>\<open>go\<close> statement (the worker's \<^verbatim>\<open>select\<close> loop next to
  \<^verbatim>\<open>waitForInterrupt\<close>, the ticker and the subscriber) is concurrent and is not part
  of this model; \<open>handleEvent\<close> and \<open>synchronize\<close> above are the two units of work
  the loop runs.
\<close>

definition main ::
  "('w, 'p, 'r, 'k) packages \<Rightarrow> string \<Rightarrow> flags \<Rightarrow> 'r \<Rightarrow> ('w, 'p, 'r, 'k) process"
where
  "main m appVersion fl r =
    (if version fl then Exited 0 [Println appVersion]
     else
       let t0 = [Printf (''starting wg-manager '' @ appVersion)] in
       (case statsd_New m (statsdAddress fl) r of
          Some err \<Rightarrow> Exited 1 (t0 @ [Printf (''Error initializing metrics '' @ err)])
        | None \<Rightarrow>
            if interfaces fl = [] then
              Exited 1 (t0 @ [Printf ''no wireguard interfaces configured''])
            else
              (case wireguard_New m (Split (interfaces fl) CHR '','') r of
                 Inl err \<Rightarrow> Exited 1 (t0 @ [Printf (''error initializing wireguard '' @ err)])
               | Inr w \<Rightarrow>
                   (case portforward_New m (portForwardingChainPrefix fl)
                           (portForwardingIpsetIPv4 fl) (portForwardingIpsetIPv6 fl) r of
                      Inl err \<Rightarrow>
                        Exited 1 (t0 @ [Printf (''error initializing portforwarding '' @ err)])
                    | Inr p \<Rightarrow>
                        let s = synchronize m
                                  \<lparr>api = new_API fl, wg = w, pf = p, server = r, trace = t0\<rparr>
                        in (case s_Subscribe m (new_Subscriber fl) (server s) of
                              (Some err, r1) \<Rightarrow>
                                Exited 1 (trace s @
                                  [Call_Subscribe,
                                   Printf (''error connecting to message-queue'' @ err)])
                            | (None, r1) \<Rightarrow>
                                Serving
                                  (emit Go_worker
                                    (emit (Call_NewTicker (interval fl) (delay fl))
                                      (emit Call_Subscribe (s\<lparr>server := r1\<rparr>)))))))))"

section \<open>The Portforward manager\<close>

text \<open>
  The code of package \<^verbatim>\<open>portforward\<close> is not among the sources; its integration
  test \<^verbatim>\<open>portforward/portforward_test.go\<close> is. The manager below is modelled from
  the specification, section 4.2, sentence by sentence, and is run against the fixtures
  of that test further down.
\<close>

datatype family = V4 | V6

datatype protocol = TCP | UDP

text \<open>
  Modelled from the spec: the manager that \<^verbatim>\<open>portforward.New(chainPrefix, ipsetIPv4,
  ipsetIPv6)\<close> returns, whose Go type is missing. It holds the three names.
\<close>

record Portforward =
  chainPrefix :: string
  ipsetIPv4 :: string
  ipsetIPv6 :: string

text \<open>
  Modelled from the spec: a DNAT rule as the firewall stores it, by the parts of its text
  form \<^verbatim>\<open>-p <proto> -m set --match-set <IPSET> dst -m multiport --dports <ports>
  -j DNAT --to-destination <address>\<close>. The chain a rule stands in is its place in the
  firewall state.
\<close>

record rule =
  proto :: protocol
  match_set :: string
  dports :: string
  to_destination :: string

text \<open>
  Modelled from the spec: the part of the firewall the manager owns. Two chains
  (\<^verbatim>\<open><prefix>_TCP\<close>, \<^verbatim>\<open><prefix>_UDP\<close>) in the nat table of each of iptables and
  ip6tables, in rule order, and the two ipsets.
\<close>

record firewall =
  v4_TCP :: "rule list"
  v4_UDP :: "rule list"
  v6_TCP :: "rule list"
  v6_UDP :: "rule list"
  set_v4 :: "string set"
  set_v6 :: "string set"

definition map_chains ::
  "(family \<Rightarrow> protocol \<Rightarrow> rule list \<Rightarrow> rule list) \<Rightarrow> firewall \<Rightarrow> firewall" where
  "map_chains f fw =
     fw\<lparr>v4_TCP := f V4 TCP (v4_TCP fw), v4_UDP := f V4 UDP (v4_UDP fw),
        v6_TCP := f V6 TCP (v6_TCP fw), v6_UDP := f V6 UDP (v6_UDP fw)\<rparr>"

definition map_sets :: "(family \<Rightarrow> string set \<Rightarrow> string set) \<Rightarrow> firewall \<Rightarrow> firewall" where
  "map_sets f fw = fw\<lparr>set_v4 := f V4 (set_v4 fw), set_v6 := f V6 (set_v6 fw)\<rparr>"

text \<open>The rule table: the four chains, in the order the test's \<^verbatim>\<open>getRules\<close> reads them.\<close>

definition rule_table :: "firewall \<Rightarrow> rule list \<times> rule list \<times> rule list \<times> rule list" where
  "rule_table fw = (v4_TCP fw, v4_UDP fw, v6_TCP fw, v6_UDP fw)"

subsection \<open>Rule shape\<close>

text \<open>\<^verbatim>\<open>strconv.Itoa\<close> and \<^verbatim>\<open>strings.Join\<close>, which build the multiport list.\<close>

fun digits :: "nat \<Rightarrow> string" where
  "digits n =
     (if n < 10 then [''0123456789'' ! n]
      else digits (n div 10) @ [''0123456789'' ! (n mod 10)])"

declare digits.simps [simp del]

definition Itoa :: "int \<Rightarrow> string" where
  "Itoa i = (if i < 0 then CHR ''-'' # digits (nat (- i)) else digits (nat i))"

fun Join :: "string list \<Rightarrow> string \<Rightarrow> string" where
  "Join [] sep = []"
| "Join [x] sep = x"
| "Join (x # y # ys) sep = x @ sep @ Join (y # ys) sep"

text \<open>
  Modelled from the spec: ``a multiport list built from the peer's ports sorted ascending
  with duplicates removed and comma-joined''.
\<close>

definition multiport :: "int list \<Rightarrow> string" where
  "multiport ports = Join (map Itoa (sort (remdups ports))) '',''"

definition address :: "family \<Rightarrow> WireguardPeer \<Rightarrow> string" where
  "address f p = (case f of V4 \<Rightarrow> IPv4 p | V6 \<Rightarrow> IPv6 p)"

definition ipset :: "Portforward \<Rightarrow> family \<Rightarrow> string" where
  "ipset c f = (case f of V4 \<Rightarrow> ipsetIPv4 c | V6 \<Rightarrow> ipsetIPv6 c)"

text \<open>Modelled from the spec: ``the peer's bare address (no prefix length)''.\<close>

definition bare :: "string \<Rightarrow> string" where
  "bare cidr = takeWhile (\<lambda>c. c \<noteq> CHR ''/'') cidr"

text \<open>
  Modelled from the spec: ``for each peer and each address family it has an address in,
  and only if the peer has at least one port, emit one TCP and one UDP DNAT rule''. This
  is the rule of one family and one protocol, or none.
\<close>

definition peer_rules :: "Portforward \<Rightarrow> family \<Rightarrow> protocol \<Rightarrow> WireguardPeer \<Rightarrow> rule list" where
  "peer_rules c f pr p =
     (if Ports p \<noteq> [] \<and> address f p \<noteq> []
      then [\<lparr>proto = pr, match_set = ipset c f, dports = multiport (Ports p),
             to_destination = bare (address f p)\<rparr>]
      else [])"

subsection \<open>Operations\<close>

text \<open>
  Modelled from the spec: ``AddPortforwarding(peer): appends the peer's rule set to both
  chains and adds its addresses to the matching ipsets.''
\<close>

definition add_member :: "WireguardPeer \<Rightarrow> family \<Rightarrow> string set \<Rightarrow> string set" where
  "add_member p f A = (if address f p = [] then A else insert (address f p) A)"

definition AddPortforwarding :: "Portforward \<Rightarrow> WireguardPeer \<Rightarrow> firewall \<Rightarrow> firewall" where
  "AddPortforwarding c p fw =
     map_sets (add_member p) (map_chains (\<lambda>f pr ch. ch @ peer_rules c f pr p) fw)"

text \<open>
  Modelled from the spec: ``RemovePortforwarding(peer): deletes exactly the rules matching
  the peer's current address(es) and removes ipset membership.'' A rule matches an address
  when it redirects to it.
\<close>

definition clear_address :: "WireguardPeer \<Rightarrow> family \<Rightarrow> rule list \<Rightarrow> rule list" where
  "clear_address p f ch =
     (if address f p = [] then ch
      else filter (\<lambda>r. to_destination r \<noteq> bare (address f p)) ch)"

definition remove_member :: "WireguardPeer \<Rightarrow> family \<Rightarrow> string set \<Rightarrow> string set" where
  "remove_member p f A = (if address f p = [] then A else A - {address f p})"

definition RemovePortforwarding :: "Portforward \<Rightarrow> WireguardPeer \<Rightarrow> firewall \<Rightarrow> firewall" where
  "RemovePortforwarding c p fw =
     map_sets (remove_member p) (map_chains (\<lambda>f pr ch. clear_address p f ch) fw)"

text \<open>
  Modelled from the spec: ``UpdateSinglePeerPortforwarding(peer): \<dots> existing rule(s) for
  that peer's address must be cleared first, then the new rule set installed'', the
  remove-then-add of the design notes.
\<close>

definition UpdateSinglePeerPortforwarding ::
  "Portforward \<Rightarrow> WireguardPeer \<Rightarrow> firewall \<Rightarrow> firewall" where
  "UpdateSinglePeerPortforwarding c p fw = AddPortforwarding c p (RemovePortforwarding c p fw)"

text \<open>
  Modelled from the spec: ``UpdatePortforwarding(desiredList): full reconciliation --
  removes rules for peers no longer present or with empty ports, (re)installs rules for
  all peers with ports''. First every rule that redirects to no address of a listed peer
  with ports is deleted, then each listed peer with ports is reinstalled, in list order.
  The sentence names rules only, so the first step leaves the ipsets as they are.
\<close>

definition with_ports :: "WireguardPeer list \<Rightarrow> WireguardPeer list" where
  "with_ports peers = filter (\<lambda>p. Ports p \<noteq> []) peers"

definition wanted :: "family \<Rightarrow> WireguardPeer list \<Rightarrow> string list" where
  "wanted f peers = map (\<lambda>p. bare (address f p)) (filter (\<lambda>p. address f p \<noteq> []) peers)"

definition UpdatePortforwarding ::
  "Portforward \<Rightarrow> WireguardPeer list \<Rightarrow> firewall \<Rightarrow> firewall" where
  "UpdatePortforwarding c peers fw =
     fold (UpdateSinglePeerPortforwarding c) (with_ports peers)
       (map_chains
          (\<lambda>f pr ch. filter (\<lambda>r. to_destination r \<in> set (wanted f (with_ports peers))) ch) fw)"

subsection \<open>Reading the rules back, as the integration test does\<close>

definition chain_name :: "Portforward \<Rightarrow> protocol \<Rightarrow> string" where
  "chain_name c pr = chainPrefix c @ (case pr of TCP \<Rightarrow> ''_TCP'' | UDP \<Rightarrow> ''_UDP'')"

definition render :: "string \<Rightarrow> rule \<Rightarrow> string" where
  "render chain r =
     ''-A '' @ chain @ '' -p '' @ (case proto r of TCP \<Rightarrow> ''tcp'' | UDP \<Rightarrow> ''udp'') @
     '' -m set --match-set '' @ match_set r @ '' dst -m multiport --dports '' @ dports r @
     '' -j DNAT --to-destination '' @ to_destination r"

text \<open>
  \<^verbatim>\<open>ipt.List(table, chain)\<close> of go-iptables: the chain's declaration line, then one
  line a rule.
\<close>

definition List_chain :: "string \<Rightarrow> rule list \<Rightarrow> string list" where
  "List_chain chain ch = (''-N '' @ chain) # map (render chain) ch"

text \<open>
  \<^verbatim>\<open>getRules\<close> of \<^verbatim>\<open>portforward_test.go\<close>: for iptables then ip6tables, for the
  TCP then the UDP chain, the listing without its first line.
\<close>

definition getRules :: "Portforward \<Rightarrow> firewall \<Rightarrow> string list" where
  "getRules c fw =
     concat (map (\<lambda>(ch, pr).
         let listRules = List_chain (chain_name c pr) ch
         in if length listRules > 0 then drop 1 listRules else listRules)
       [(v4_TCP fw, TCP), (v4_UDP fw, UDP), (v6_TCP fw, TCP), (v6_UDP fw, UDP)])"

text \<open>The fixtures of \<^verbatim>\<open>portforward_test.go\<close>.\<close>

definition test_pf :: Portforward where
  "test_pf = \<lparr>chainPrefix = ''PORTFORWARDING'', ipsetIPv4 = ''PORTFORWARDING_IPV4'',
              ipsetIPv6 = ''PORTFORWARDING_IPV6''\<rparr>"

definition apiFixture :: "WireguardPeer list" where
  "apiFixture =
     [\<lparr>IPv4 = ''10.99.0.1/32'', IPv6 = ''fc00:bbbb:bbbb:bb01::1/128'', Ports = [4321, 1234],
       Pubkey = ''YWFhYWFhYWFhYWFhYWFhYWFhYWFhYWFhYWFhYWFhYWE=''\<rparr>]"

definition rulesFixture :: "string list" where
  "rulesFixture =
    [''-A PORTFORWARDING_TCP -p tcp -m set --match-set PORTFORWARDING_IPV4 dst -m multiport --dports 1234,4321 -j DNAT --to-destination 10.99.0.1'',
     ''-A PORTFORWARDING_UDP -p udp -m set --match-set PORTFORWARDING_IPV4 dst -m multiport --dports 1234,4321 -j DNAT --to-destination 10.99.0.1'',
     ''-A PORTFORWARDING_TCP -p tcp -m set --match-set PORTFORWARDING_IPV6 dst -m multiport --dports 1234,4321 -j DNAT --to-destination fc00:bbbb:bbbb:bb01::1'',
     ''-A PORTFORWARDING_UDP -p udp -m set --match-set PORTFORWARDING_IPV6 dst -m multiport --dports 1234,4321 -j DNAT --to-destination fc00:bbbb:bbbb:bb01::1'']"

definition rulesUpdatedPortsFixture :: "int list" where
  "rulesUpdatedPortsFixture = [1234, 4322, 1337]"

definition rulesUpdatedFixture :: "string list" where
  "rulesUpdatedFixture =
    [''-A PORTFORWARDING_TCP -p tcp -m set --match-set PORTFORWARDING_IPV4 dst -m multiport --dports 1234,1337,4322 -j DNAT --to-destination 10.99.0.1'',
     ''-A PORTFORWARDING_UDP -p udp -m set --match-set PORTFORWARDING_IPV4 dst -m multiport --dports 1234,1337,4322 -j DNAT --to-destination 10.99.0.1'',
     ''-A PORTFORWARDING_TCP -p tcp -m set --match-set PORTFORWARDING_IPV6 dst -m multiport --dports 1234,1337,4322 -j DNAT --to-destination fc00:bbbb:bbbb:bb01::1'',
     ''-A PORTFORWARDING_UDP -p udp -m set --match-set PORTFORWARDING_IPV6 dst -m multiport --dports 1234,1337,4322 -j DNAT --to-destination fc00:bbbb:bbbb:bb01::1'']"

definition empty_firewall :: firewall where
  "empty_firewall =
     \<lparr>v4_TCP = [], v4_UDP = [], v6_TCP = [], v6_UDP = [], set_v4 = {}, set_v6 = {}\<rparr>"

text \<open>
  A firewall left behind by earlier runs: the TCP chain of iptables holds an outdated rule
  for the fixture's address and a rule for a peer that is gone.
\<close>

definition stale_firewall :: firewall where
  "stale_firewall =
     empty_firewall\<lparr>v4_TCP :=
       [\<lparr>proto = TCP, match_set = ''PORTFORWARDING_IPV4'', dports = ''80'',
          to_destination = ''10.99.0.1''\<rparr>,
        \<lparr>proto = TCP, match_set = ''PORTFORWARDING_IPV4'', dports = ''22,443'',
          to_destination = ''10.99.0.7''\<rparr>]\<rparr>"

text \<open>A firewall that holds the rules of one other peer only.\<close>

definition other_firewall :: firewall where
  "other_firewall =
     empty_firewall\<lparr>v4_UDP :=
       [\<lparr>proto = UDP, match_set = ''PORTFORWARDING_IPV4'', dports = ''22,443'',
          to_destination = ''10.99.0.7''\<rparr>]\<rparr>"

subsection \<open>Chains and ipsets, one at a time\<close>

text \<open>The chain of a family and a protocol.\<close>

definition chain :: "family \<Rightarrow> protocol \<Rightarrow> firewall \<Rightarrow> rule list" where
  "chain f pr fw =
     (case (f, pr) of (V4, TCP) \<Rightarrow> v4_TCP fw | (V4, UDP) \<Rightarrow> v4_UDP fw
                    | (V6, TCP) \<Rightarrow> v6_TCP fw | (V6, UDP) \<Rightarrow> v6_UDP fw)"

text \<open>What \<open>UpdateSinglePeerPortforwarding\<close> does to one chain: clear, then append.\<close>

definition reinstall :: "Portforward \<Rightarrow> family \<Rightarrow> protocol \<Rightarrow> WireguardPeer \<Rightarrow> rule list \<Rightarrow> rule list" where
  "reinstall c f pr p ch = clear_address p f ch @ peer_rules c f pr p"

text \<open>The ipset of a family.\<close>

definition members :: "family \<Rightarrow> firewall \<Rightarrow> string set" where
  "members f fw = (case f of V4 \<Rightarrow> set_v4 fw | V6 \<Rightarrow> set_v6 fw)"

text \<open>The addresses and ports of a peer, without its key.\<close>

definition shape :: "WireguardPeer \<Rightarrow> string \<times> string \<times> int list" where
  "shape p = (IPv4 p, IPv6 p, Ports p)"

text \<open>
  Whether some chain holds a rule that redirects to an address of the peer.
\<close>

definition holds_rules_for :: "WireguardPeer \<Rightarrow> firewall \<Rightarrow> bool" where
  "holds_rules_for p fw =
     list_ex (\<lambda>(f, pr). address f p \<noteq> [] \<and>
                list_ex (\<lambda>r. to_destination r = bare (address f p)) (chain f pr fw))
       [(V4, TCP), (V4, UDP), (V6, TCP), (V6, UDP)]"

section \<open>The WireGuard manager\<close>

text \<open>
  The code of package \<^verbatim>\<open>wireguard\<close> is not among the sources. No property below is
  about it; it is modelled from the specification, section 4.1, so that the model of the
  main package can be run on concrete inputs.
\<close>

text \<open>Modelled from the spec: a peer as a WireGuard device holds it.\<close>

record device_peer =
  PublicKey :: string
  AllowedIPs :: "string list"
  recent_handshake :: bool

text \<open>
  Modelled from the spec: the manager's state, the peer table of each configured
  interface, by interface name.
\<close>

type_synonym Wireguard = "(string \<times> device_peer list) list"

text \<open>
  Modelled from the spec: ``AddPeer(peer): installs the peer's public key and allowed-IP
  set (derived from its IPv4/IPv6 fields) on every configured interface. Idempotent:
  re-adding an existing peer updates its allowed-IPs rather than erroring.''
\<close>

definition allowed_ips :: "WireguardPeer \<Rightarrow> string list" where
  "allowed_ips p = filter (\<lambda>a. a \<noteq> []) [IPv4 p, IPv6 p]"

definition install :: "WireguardPeer \<Rightarrow> device_peer list \<Rightarrow> device_peer list" where
  "install p tbl =
     (if list_ex (\<lambda>d. PublicKey d = Pubkey p) tbl
      then map (\<lambda>d. if PublicKey d = Pubkey p then d\<lparr>AllowedIPs := allowed_ips p\<rparr> else d) tbl
      else tbl @ [\<lparr>PublicKey = Pubkey p, AllowedIPs = allowed_ips p, recent_handshake = False\<rparr>])"

definition AddPeer :: "WireguardPeer \<Rightarrow> Wireguard \<Rightarrow> Wireguard" where
  "AddPeer p devs = map (\<lambda>(name, tbl). (name, install p tbl)) devs"

text \<open>
  Modelled from the spec: ``RemovePeer(peer): deletes the public key from every
  interface; absence is not an error.''
\<close>

definition RemovePeer :: "WireguardPeer \<Rightarrow> Wireguard \<Rightarrow> Wireguard" where
  "RemovePeer p devs =
     map (\<lambda>(name, tbl). (name, filter (\<lambda>d. PublicKey d \<noteq> Pubkey p) tbl)) devs"

text \<open>
  Modelled from the spec: ``UpdatePeers(desiredList) -> connectedKeys: \<dots> desiredList
  minus current-device-peers (by public key) to add, and current-device-peers minus
  desiredList to remove; peers present in both are left untouched \<dots> Returns the subset
  of desiredList's keys whose device state reports a recent handshake.''
\<close>

definition UpdatePeers :: "WireguardPeer list \<Rightarrow> Wireguard \<Rightarrow> string list \<times> Wireguard" where
  "UpdatePeers desired devs =
     (filter (\<lambda>k. list_ex (\<lambda>(name, tbl).
                 list_ex (\<lambda>d. PublicKey d = k \<and> recent_handshake d) tbl) devs)
        (map Pubkey desired),
      map (\<lambda>(name, tbl).
            (name,
             fold install
               (filter (\<lambda>p. \<not> list_ex (\<lambda>d. PublicKey d = Pubkey p) tbl) desired)
               (filter (\<lambda>d. PublicKey d \<in> set (map Pubkey desired)) tbl)))
        devs)"

section \<open>A scripted outside world\<close>

text \<open>
  To run the model of the main package on concrete inputs: an outside world that answers
  from a script (which interfaces exist, what the control plane replies to the fetch and
  to the report, whether the message queue accepts the subscription), the two managers as
  modelled above, and constructors that succeed when the interfaces exist.
\<close>

record outside =
  present_interfaces :: "string list"
  peers_reply :: "string + WireguardPeer list"
  post_reply :: "string option"
  subscribe_reply :: "string option"

definition scripted ::
  "(Wireguard, Portforward \<times> firewall, outside, string list) packages" where
  "scripted =
     \<lparr>statsd_New = (\<lambda>addr r. None),
      wireguard_New = (\<lambda>names r.
        if list_all (\<lambda>n. n \<in> set (present_interfaces r)) names
        then Inr (map (\<lambda>n. (n, [])) names) else Inl ''no such device''),
      portforward_New = (\<lambda>prefix s4 s6 r.
        Inr (\<lparr>chainPrefix = prefix, ipsetIPv4 = s4, ipsetIPv6 = s6\<rparr>, empty_firewall)),
      s_Subscribe = (\<lambda>sub r. (subscribe_reply r, r)),
      a_GetWireguardPeers = (\<lambda>a r. (peers_reply r, r)),
      a_PostWireguardConnections = (\<lambda>a keys r. (post_reply r, r)),
      wg_UpdatePeers = UpdatePeers,
      wg_AddPeer = AddPeer,
      wg_RemovePeer = RemovePeer,
      pf_UpdatePortforwarding = (\<lambda>peers (c, fw). (c, UpdatePortforwarding c peers fw)),
      pf_AddPortforwarding = (\<lambda>p (c, fw). (c, AddPortforwarding c p fw)),
      pf_RemovePortforwarding = (\<lambda>p (c, fw). (c, RemovePortforwarding c p fw)),
      pf_UpdateSinglePeerPortforwarding =
        (\<lambda>p (c, fw). (c, UpdateSinglePeerPortforwarding c p fw))\<rparr>"

text \<open>An outside world in which everything works, and one whose control plane times out.\<close>

definition quiet :: outside where
  "quiet = \<lparr>present_interfaces = [''wg0''], peers_reply = Inr apiFixture, post_reply = None,
            subscribe_reply = None\<rparr>"

definition hung :: outside where
  "hung = quiet\<lparr>peers_reply := Inl ''context deadline exceeded''\<rparr>"

text \<open>One that rejects the report of connected keys, and one that refuses the subscription.\<close>

definition unheard :: outside where
  "unheard = quiet\<lparr>post_reply := Some ''502 Bad Gateway''\<rparr>"

definition deaf :: outside where
  "deaf = quiet\<lparr>subscribe_reply := Some '': connection refused''\<rparr>"

text \<open>The flags of \<^verbatim>\<open>wg-manager -interval 10s\<close>.\<close>

definition short_interval :: flags where
  "short_interval = default_flags\<lparr>interval := Second * 10\<rparr>"

text \<open>The flags of \<^verbatim>\<open>wg-manager -api-timeout 0\<close>.\<close>

definition no_timeout :: flags where
  "no_timeout = default_flags\<lparr>apiTimeout := 0\<rparr>"

text \<open>
  The scripted packages with a control plane that takes \<open>latency\<close> to answer: a call made
  with a deadline shorter than that fails when the deadline expires, a call without a
  deadline waits for the reply.
\<close>

definition expires :: "API \<Rightarrow> int \<Rightarrow> bool" where
  "expires c latency = (case deadline c of None \<Rightarrow> False | Some d \<Rightarrow> d < latency)"

definition answering_after ::
  "int \<Rightarrow> (Wireguard, Portforward \<times> firewall, outside, string list) packages" where
  "answering_after latency =
     scripted
       \<lparr>a_GetWireguardPeers := (\<lambda>c r.
          if expires c latency then (Inl ''context deadline exceeded'', r)
          else (peers_reply r, r)),
        a_PostWireguardConnections := (\<lambda>c keys r.
          if expires c latency then (Some ''context deadline exceeded'', r)
          else (post_reply r, r))\<rparr>"

text \<open>A running process in the scripted world: one interface, no peers, no rules.\<close>

definition fresh :: "outside \<Rightarrow> (Wireguard, Portforward \<times> firewall, outside, string list) world" where
  "fresh r = \<lparr>api = new_API default_flags, wg = [(''wg0'', [])],
              pf = (test_pf, empty_firewall), server = r, trace = []\<rparr>"

section \<open>Properties of the Portforward manager\<close>

lemma chain_map_chains: "chain f pr (map_chains g fw) = g f pr (chain f pr fw)"
  by (cases f; cases pr) (simp_all add: chain_def map_chains_def)

lemma chain_map_sets: "chain f pr (map_sets g fw) = chain f pr fw"
  by (cases f; cases pr) (simp_all add: chain_def map_sets_def)

lemma chain_AddPortforwarding:
  "chain f pr (AddPortforwarding c p fw) = chain f pr fw @ peer_rules c f pr p"
  by (simp add: AddPortforwarding_def chain_map_chains chain_map_sets)

lemma chain_RemovePortforwarding:
  "chain f pr (RemovePortforwarding c p fw) = clear_address p f (chain f pr fw)"
  by (simp add: RemovePortforwarding_def chain_map_chains chain_map_sets)

lemma chain_UpdateSinglePeerPortforwarding:
  "chain f pr (UpdateSinglePeerPortforwarding c p fw) = reinstall c f pr p (chain f pr fw)"
  by (simp add: UpdateSinglePeerPortforwarding_def reinstall_def chain_AddPortforwarding
      chain_RemovePortforwarding)

lemma chain_fold_UpdateSinglePeerPortforwarding:
  "chain f pr (fold (UpdateSinglePeerPortforwarding c) ps fw) =
   fold (reinstall c f pr) ps (chain f pr fw)"
  by (induction ps arbitrary: fw) (simp_all add: chain_UpdateSinglePeerPortforwarding)

lemma chain_UpdatePortforwarding:
  "chain f pr (UpdatePortforwarding c peers fw) =
   fold (reinstall c f pr) (with_ports peers)
     (filter (\<lambda>r. to_destination r \<in> set (wanted f (with_ports peers))) (chain f pr fw))"
  by (simp add: UpdatePortforwarding_def chain_fold_UpdateSinglePeerPortforwarding chain_map_chains)

lemma rule_table_eq_iff:
  "rule_table fw = rule_table fw' \<longleftrightarrow> (\<forall>f pr. chain f pr fw = chain f pr fw')"
proof
  assume "rule_table fw = rule_table fw'"
  then show "\<forall>f pr. chain f pr fw = chain f pr fw'"
    by (auto simp: rule_table_def chain_def split: family.split protocol.split)
next
  assume h: "\<forall>f pr. chain f pr fw = chain f pr fw'"
  from h [rule_format, of V4 TCP] h [rule_format, of V4 UDP]
       h [rule_format, of V6 TCP] h [rule_format, of V6 UDP]
  show "rule_table fw = rule_table fw'"
    by (simp add: rule_table_def chain_def)
qed

lemma peer_rules_destination:
  "r \<in> set (peer_rules c f pr p) \<Longrightarrow> to_destination r = bare (address f p) \<and> address f p \<noteq> []"
  by (auto simp: peer_rules_def split: if_splits)

lemma wanted_Cons:
  "wanted f (p # ps) = (if address f p = [] then wanted f ps else bare (address f p) # wanted f ps)"
  by (simp add: wanted_def)

lemma filter_peer_rules_other:
  "filter (\<lambda>r. to_destination r \<noteq> bare (address f p)) (peer_rules c f pr p) = []"
  by (simp add: peer_rules_def)

lemma fold_reinstall:
  "fold (reinstall c f pr) ps ch =
   filter (\<lambda>r. to_destination r \<notin> set (wanted f ps)) ch @ fold (reinstall c f pr) ps []"
proof (induction ps arbitrary: ch)
  case Nil
  show ?case by (simp add: wanted_def)
next
  case (Cons p ps)
  show ?case
  proof (cases "address f p = []")
    case True
    then have "reinstall c f pr p ch = ch" for ch
      by (simp add: reinstall_def clear_address_def peer_rules_def)
    then show ?thesis
      using Cons.IH [of ch] True by (simp add: wanted_Cons)
  next
    case False
    let ?a = "bare (address f p)"
    let ?R = "peer_rules c f pr p"
    have step: "reinstall c f pr p ch = filter (\<lambda>r. to_destination r \<noteq> ?a) ch @ ?R" for ch
      using False by (simp add: reinstall_def clear_address_def)
    have "fold (reinstall c f pr) (p # ps) ch =
          filter (\<lambda>r. to_destination r \<notin> set (wanted f ps))
            (filter (\<lambda>r. to_destination r \<noteq> ?a) ch @ ?R) @ fold (reinstall c f pr) ps []"
      using Cons.IH [of "reinstall c f pr p ch"] by (simp add: step)
    moreover have "fold (reinstall c f pr) (p # ps) [] =
          filter (\<lambda>r. to_destination r \<notin> set (wanted f ps)) ?R @ fold (reinstall c f pr) ps []"
      using Cons.IH [of "reinstall c f pr p []"] by (simp add: step)
    moreover have "filter (\<lambda>r. to_destination r \<notin> set (wanted f (p # ps))) ch =
          filter (\<lambda>r. to_destination r \<notin> set (wanted f ps)) (filter (\<lambda>r. to_destination r \<noteq> ?a) ch)"
      using False by (simp add: wanted_Cons conj_commute)
    ultimately show ?thesis by simp
  qed
qed

lemma chain_UpdatePortforwarding_function:
  "chain f pr (UpdatePortforwarding c peers fw) = fold (reinstall c f pr) (with_ports peers) []"
proof -
  let ?W = "set (wanted f (with_ports peers))"
  have "filter (\<lambda>r. to_destination r \<notin> ?W) (filter (\<lambda>r. to_destination r \<in> ?W) (chain f pr fw)) = []"
    by simp
  then show ?thesis
    by (subst chain_UpdatePortforwarding, subst fold_reinstall) simp
qed

lemma reinstall_distinct:
  "distinct (map to_destination ch) \<Longrightarrow> distinct (map to_destination (reinstall c f pr p ch))"
  by (auto simp: reinstall_def clear_address_def peer_rules_def distinct_map_filter)

lemma fold_reinstall_distinct:
  "distinct (map to_destination ch) \<Longrightarrow>
   distinct (map to_destination (fold (reinstall c f pr) ps ch))"
  by (induction ps arbitrary: ch) (simp_all add: reinstall_distinct)

lemma chain_UpdatePortforwarding_distinct:
  "distinct (map to_destination (chain f pr (UpdatePortforwarding c peers fw)))"
  by (simp add: chain_UpdatePortforwarding_function fold_reinstall_distinct)

lemma members_map_sets: "members f (map_sets g fw) = g f (members f fw)"
  by (cases f) (simp_all add: members_def map_sets_def)

lemma members_map_chains: "members f (map_chains g fw) = members f fw"
  by (cases f) (simp_all add: members_def map_chains_def)

lemma members_UpdateSinglePeerPortforwarding:
  "members f (UpdateSinglePeerPortforwarding c p fw) = add_member p f (members f fw)"
  by (auto simp: UpdateSinglePeerPortforwarding_def AddPortforwarding_def
      RemovePortforwarding_def members_map_sets members_map_chains add_member_def
      remove_member_def)

lemma members_fold_UpdateSinglePeerPortforwarding:
  "members f (fold (UpdateSinglePeerPortforwarding c) ps fw) =
   members f fw \<union> {address f p |p. p \<in> set ps \<and> address f p \<noteq> []}"
  by (induction ps arbitrary: fw)
    (auto simp: members_UpdateSinglePeerPortforwarding add_member_def)

lemma members_UpdatePortforwarding:
  "members f (UpdatePortforwarding c peers fw) =
   members f fw \<union> {address f p |p. p \<in> set (with_ports peers) \<and> address f p \<noteq> []}"
  by (simp add: UpdatePortforwarding_def members_fold_UpdateSinglePeerPortforwarding
      members_map_chains)

lemma firewall_eqI:
  fixes fw fw' :: firewall
  assumes "\<And>f pr. chain f pr fw = chain f pr fw'" and "\<And>f. members f fw = members f fw'"
  shows "fw = fw'"
proof (rule firewall.equality)
  show "v4_TCP fw = v4_TCP fw'" using assms(1) [of V4 TCP] by (simp add: chain_def)
  show "v4_UDP fw = v4_UDP fw'" using assms(1) [of V4 UDP] by (simp add: chain_def)
  show "v6_TCP fw = v6_TCP fw'" using assms(1) [of V6 TCP] by (simp add: chain_def)
  show "v6_UDP fw = v6_UDP fw'" using assms(1) [of V6 UDP] by (simp add: chain_def)
  show "set_v4 fw = set_v4 fw'" using assms(2) [of V4] by (simp add: members_def)
  show "set_v6 fw = set_v6 fw'" using assms(2) [of V6] by (simp add: members_def)
qed simp

lemma UpdatePortforwarding_twice:
  "UpdatePortforwarding c peers (UpdatePortforwarding c peers fw) = UpdatePortforwarding c peers fw"
  by (rule firewall_eqI)
    (auto simp: chain_UpdatePortforwarding_function members_UpdatePortforwarding)

lemma with_ports_cong:
  "map Ports L = map Ports L' \<Longrightarrow> map (\<lambda>p. Ports p \<noteq> []) L = map (\<lambda>p. Ports p \<noteq> []) L'"
  by (induction L arbitrary: L') auto

lemma reinstall_shape:
  "shape p = shape q \<Longrightarrow> reinstall c f pr p = reinstall c f pr q"
  by (rule ext) (simp add: shape_def reinstall_def clear_address_def peer_rules_def address_def
      split: family.split)

lemma fold_reinstall_shape:
  "map shape L = map shape L' \<Longrightarrow>
   fold (reinstall c f pr) (with_ports L) ch = fold (reinstall c f pr) (with_ports L') ch"
proof (induction L arbitrary: L' ch)
  case Nil
  then show ?case by (simp add: with_ports_def)
next
  case (Cons p L)
  then obtain q L'' where L': "L' = q # L''" and pq: "shape p = shape q"
    and rest: "map shape L = map shape L''"
    by (cases L') auto
  from pq have ports: "Ports p = Ports q" by (simp add: shape_def)
  have IH: "fold (reinstall c f pr) (with_ports L) ch' = fold (reinstall c f pr) (with_ports L'') ch'" for ch'
    using Cons.IH [OF rest] .
  show ?case
    using IH ports reinstall_shape [OF pq, of c f pr] by (simp add: L' with_ports_def)
qed

lemma rule_table_UpdatePortforwarding_shape:
  "map shape L = map shape L' \<Longrightarrow>
   rule_table (UpdatePortforwarding c L fw) = rule_table (UpdatePortforwarding c L' fw')"
  unfolding rule_table_eq_iff chain_UpdatePortforwarding_function
  using fold_reinstall_shape [of L L'] by blast

lemma distinct_chain_UpdatePortforwarding:
  "distinct (chain f pr (UpdatePortforwarding c peers fw))"
  using chain_UpdatePortforwarding_distinct [of f pr c peers fw] by (simp add: distinct_map)

subsection \<open>Evaluating the model on the test's fixtures\<close>

lemma digits_numeral:
  "digits (numeral k) =
     (if numeral k < (10::nat) then [''0123456789'' ! numeral k]
      else digits (numeral k div 10) @ [''0123456789'' ! (numeral k mod 10)])"
  by (rule digits.simps)

lemma digits_0: "digits 0 = ''0''"
  by (subst digits.simps) simp

lemma digits_1: "digits 1 = ''1''" "digits (Suc 0) = ''1''"
  by (subst digits.simps, simp)+

lemma multiport_fixture: "multiport [4321, 1234] = ''1234,4321''"
  by (simp add: multiport_def Itoa_def digits_numeral digits_0 digits_1)

lemma multiport_updated: "multiport [1234, 4322, 1337] = ''1234,1337,4322''"
  by (simp add: multiport_def Itoa_def digits_numeral digits_0 digits_1)

lemma peer_rules_fixture:
  "peer_rules test_pf f pr (apiFixture ! 0) =
     [\<lparr>proto = pr, match_set = (case f of V4 \<Rightarrow> ''PORTFORWARDING_IPV4'' | V6 \<Rightarrow> ''PORTFORWARDING_IPV6''),
       dports = ''1234,4321'',
       to_destination = (case f of V4 \<Rightarrow> ''10.99.0.1'' | V6 \<Rightarrow> ''fc00:bbbb:bbbb:bb01::1'')\<rparr>]"
  by (cases f)
    (simp_all add: peer_rules_def apiFixture_def address_def ipset_def test_pf_def bare_def
      multiport_fixture)

lemma peer_rules_updated:
  "peer_rules test_pf f pr ((apiFixture ! 0)\<lparr>Ports := rulesUpdatedPortsFixture\<rparr>) =
     [\<lparr>proto = pr, match_set = (case f of V4 \<Rightarrow> ''PORTFORWARDING_IPV4'' | V6 \<Rightarrow> ''PORTFORWARDING_IPV6''),
       dports = ''1234,1337,4322'',
       to_destination = (case f of V4 \<Rightarrow> ''10.99.0.1'' | V6 \<Rightarrow> ''fc00:bbbb:bbbb:bb01::1'')\<rparr>]"
  by (cases f)
    (simp_all add: peer_rules_def apiFixture_def address_def ipset_def test_pf_def bare_def
      rulesUpdatedPortsFixture_def multiport_updated)

lemma address_fixture:
  "bare (address f (apiFixture ! 0)) = (case f of V4 \<Rightarrow> ''10.99.0.1'' | V6 \<Rightarrow> ''fc00:bbbb:bbbb:bb01::1'')"
  "address f (apiFixture ! 0) \<noteq> []"
  "address f ((apiFixture ! 0)\<lparr>Ports := ports\<rparr>) = address f (apiFixture ! 0)"
  by (cases f; simp add: apiFixture_def address_def bare_def)+

lemma getRules_chains:
  "getRules c fw =
     map (render (chain_name c TCP)) (chain V4 TCP fw) @
     map (render (chain_name c UDP)) (chain V4 UDP fw) @
     map (render (chain_name c TCP)) (chain V6 TCP fw) @
     map (render (chain_name c UDP)) (chain V6 UDP fw)"
  by (simp add: getRules_def List_chain_def chain_def)

lemma chain_empty_firewall: "chain f pr empty_firewall = []"
  by (cases f; cases pr) (simp_all add: chain_def empty_firewall_def)

text \<open>
  The subtests of \<^verbatim>\<open>TestPortforward\<close>, in their order, starting from empty chains:
  ``add rules'', ``remove rules'', ``add rules for single peer'', ``remove rules for
  single peer''. (The last, ``update rules for single peer'', is part of the theorem on
  \<open>UpdateSinglePeerPortforwarding\<close> below.)
\<close>

lemma with_ports_fixture: "with_ports apiFixture = [apiFixture ! 0]" "with_ports [] = []"
  by (simp_all add: with_ports_def apiFixture_def)

lemma chain_name_test:
  "chain_name test_pf TCP = ''PORTFORWARDING_TCP''" "chain_name test_pf UDP = ''PORTFORWARDING_UDP''"
  by (simp_all add: chain_name_def test_pf_def)

lemmas eval_fixture =
  chain_AddPortforwarding chain_RemovePortforwarding chain_UpdateSinglePeerPortforwarding
  chain_empty_firewall reinstall_def clear_address_def address_fixture peer_rules_fixture
  peer_rules_updated

lemma test_add_rules:
  "getRules test_pf (UpdatePortforwarding test_pf apiFixture empty_firewall) = rulesFixture"
  unfolding getRules_chains chain_UpdatePortforwarding_function
  by (simp add: with_ports_fixture eval_fixture render_def chain_name_test rulesFixture_def)

lemma test_remove_rules:
  "getRules test_pf
     (UpdatePortforwarding test_pf []
       (UpdatePortforwarding test_pf apiFixture empty_firewall)) = []"
  unfolding getRules_chains chain_UpdatePortforwarding_function
  by (simp add: with_ports_fixture)

lemma test_add_rules_for_single_peer:
  "getRules test_pf (AddPortforwarding test_pf (apiFixture ! 0) empty_firewall) = rulesFixture"
  unfolding getRules_chains
  by (simp add: eval_fixture render_def chain_name_test rulesFixture_def)

lemma test_remove_rules_for_single_peer:
  "getRules test_pf
     (RemovePortforwarding test_pf (apiFixture ! 0)
       (AddPortforwarding test_pf (apiFixture ! 0) empty_firewall)) = []"
  unfolding getRules_chains
  by (simp add: eval_fixture)

lemma test_update_rules_for_single_peer:
  "getRules test_pf
     (UpdateSinglePeerPortforwarding test_pf ((apiFixture ! 0)\<lparr>Ports := rulesUpdatedPortsFixture\<rparr>)
       (AddPortforwarding test_pf (apiFixture ! 0)
         (RemovePortforwarding test_pf (apiFixture ! 0) empty_firewall))) = rulesUpdatedFixture"
  unfolding getRules_chains
  by (simp add: eval_fixture render_def chain_name_test rulesUpdatedFixture_def)

lemma test_update_dports:
  "map dports (chain f pr
     (UpdateSinglePeerPortforwarding test_pf ((apiFixture ! 0)\<lparr>Ports := rulesUpdatedPortsFixture\<rparr>)
       (AddPortforwarding test_pf (apiFixture ! 0)
         (RemovePortforwarding test_pf (apiFixture ! 0) empty_firewall)))) = [''1234,1337,4322'']"
  by (simp add: eval_fixture)

subsection \<open>UpdateSinglePeerPortforwarding\<close>

text \<open>
  Claim C6. For every peer, \<open>UpdateSinglePeerPortforwarding\<close> leaves in each chain
  exactly the rule set the peer's current ports imply: in a family the peer has an address
  in, the chain afterwards is the old chain without the rules for that address, followed
  by the peer's new rules, so the rules for the address are the new ones and no others; in
  a family the peer has no address in, the chain is as before. On the test's fixtures,
  adding the peer with ports 4321, 1234 and then updating it with ports 1234, 4322, 1337
  leaves the four rules of \<^verbatim>\<open>rulesUpdatedFixture\<close>: one rule a chain, each with
  dports \<^verbatim>\<open>1234,1337,4322\<close>, and none with port 4321.
\<close>

theorem UpdateSinglePeerPortforwarding_exact:
  "(address f p \<noteq> [] \<longrightarrow>
      chain f pr (UpdateSinglePeerPortforwarding c p fw) =
        filter (\<lambda>r. to_destination r \<noteq> bare (address f p)) (chain f pr fw) @
        peer_rules c f pr p \<and>
      filter (\<lambda>r. to_destination r = bare (address f p))
        (chain f pr (UpdateSinglePeerPortforwarding c p fw)) = peer_rules c f pr p) \<and>
   (address f p = [] \<longrightarrow>
      chain f pr (UpdateSinglePeerPortforwarding c p fw) = chain f pr fw) \<and>
   getRules test_pf
     (UpdateSinglePeerPortforwarding test_pf ((apiFixture ! 0)\<lparr>Ports := rulesUpdatedPortsFixture\<rparr>)
       (AddPortforwarding test_pf (apiFixture ! 0)
         (RemovePortforwarding test_pf (apiFixture ! 0) empty_firewall))) = rulesUpdatedFixture \<and>
   map dports (chain f pr
     (UpdateSinglePeerPortforwarding test_pf ((apiFixture ! 0)\<lparr>Ports := rulesUpdatedPortsFixture\<rparr>)
       (AddPortforwarding test_pf (apiFixture ! 0)
         (RemovePortforwarding test_pf (apiFixture ! 0) empty_firewall)))) = [''1234,1337,4322'']"
proof (intro conjI impI)
  assume a: "address f p \<noteq> []"
  show "chain f pr (UpdateSinglePeerPortforwarding c p fw) =
        filter (\<lambda>r. to_destination r \<noteq> bare (address f p)) (chain f pr fw) @ peer_rules c f pr p"
    using a by (simp add: chain_UpdateSinglePeerPortforwarding reinstall_def clear_address_def)
  have "filter (\<lambda>r. to_destination r = bare (address f p)) (peer_rules c f pr p) =
        peer_rules c f pr p"
    by (simp add: peer_rules_def)
  then show "filter (\<lambda>r. to_destination r = bare (address f p))
        (chain f pr (UpdateSinglePeerPortforwarding c p fw)) = peer_rules c f pr p"
    using a by (simp add: chain_UpdateSinglePeerPortforwarding reinstall_def clear_address_def)
next
  assume "address f p = []"
  then show "chain f pr (UpdateSinglePeerPortforwarding c p fw) = chain f pr fw"
    by (simp add: chain_UpdateSinglePeerPortforwarding reinstall_def clear_address_def
        peer_rules_def)
next
  show "getRules test_pf
     (UpdateSinglePeerPortforwarding test_pf ((apiFixture ! 0)\<lparr>Ports := rulesUpdatedPortsFixture\<rparr>)
       (AddPortforwarding test_pf (apiFixture ! 0)
         (RemovePortforwarding test_pf (apiFixture ! 0) empty_firewall))) = rulesUpdatedFixture"
    by (rule test_update_rules_for_single_peer)
next
  show "map dports (chain f pr
     (UpdateSinglePeerPortforwarding test_pf ((apiFixture ! 0)\<lparr>Ports := rulesUpdatedPortsFixture\<rparr>)
       (AddPortforwarding test_pf (apiFixture ! 0)
         (RemovePortforwarding test_pf (apiFixture ! 0) empty_firewall)))) = [''1234,1337,4322'']"
    by (rule test_update_dports)
qed

text \<open>
  The theorem at the fixture with its ports changed, on the firewall that holds the
  fixture's old rules: the IPv4 TCP chain ends up with the one new rule.
\<close>

theorem UpdateSinglePeerPortforwarding_exact_witness:
  "address V4 ((apiFixture ! 0)\<lparr>Ports := rulesUpdatedPortsFixture\<rparr>) \<noteq> [] \<and>
   chain V4 TCP
     (UpdateSinglePeerPortforwarding test_pf ((apiFixture ! 0)\<lparr>Ports := rulesUpdatedPortsFixture\<rparr>)
       (AddPortforwarding test_pf (apiFixture ! 0) empty_firewall)) =
     [\<lparr>proto = TCP, match_set = ''PORTFORWARDING_IPV4'', dports = ''1234,1337,4322'',
       to_destination = ''10.99.0.1''\<rparr>]"
  using UpdateSinglePeerPortforwarding_exact
    [of V4 "(apiFixture ! 0)\<lparr>Ports := rulesUpdatedPortsFixture\<rparr>" TCP test_pf
        "AddPortforwarding test_pf (apiFixture ! 0) empty_firewall"]
  by (simp add: eval_fixture)

subsection \<open>UpdatePortforwarding\<close>

text \<open>
  Claim C7. For every peer list \<open>L\<close> and every firewall state, applying
  \<open>UpdatePortforwarding L\<close> a second time changes nothing; every chain of the result is
  free of duplicates; and the rule table of the result depends on the addresses and ports
  of the listed peers only: two lists that agree on them give the same table, whatever the
  two firewalls held before.
\<close>

theorem UpdatePortforwarding_idempotent:
  "UpdatePortforwarding c L (UpdatePortforwarding c L fw) = UpdatePortforwarding c L fw \<and>
   distinct (chain f pr (UpdatePortforwarding c L fw)) \<and>
   (map shape L = map shape L' \<longrightarrow>
      rule_table (UpdatePortforwarding c L fw) = rule_table (UpdatePortforwarding c L' fw'))"
  using UpdatePortforwarding_twice [of c L fw] distinct_chain_UpdatePortforwarding [of f pr c L fw]
    rule_table_UpdatePortforwarding_shape [of L L' c fw fw']
  by blast

text \<open>
  The theorem at the test's peer list, on a firewall with outdated rules, against the same
  list under another key on the empty firewall.
\<close>

theorem UpdatePortforwarding_idempotent_witness:
  "map shape apiFixture = map shape (map (\<lambda>p. p\<lparr>Pubkey := ''k''\<rparr>) apiFixture) \<and>
   UpdatePortforwarding test_pf apiFixture (UpdatePortforwarding test_pf apiFixture stale_firewall) =
     UpdatePortforwarding test_pf apiFixture stale_firewall \<and>
   distinct (chain V4 TCP (UpdatePortforwarding test_pf apiFixture stale_firewall)) \<and>
   rule_table (UpdatePortforwarding test_pf apiFixture stale_firewall) =
     rule_table (UpdatePortforwarding test_pf (map (\<lambda>p. p\<lparr>Pubkey := ''k''\<rparr>) apiFixture)
       empty_firewall)"
proof -
  have h: "map shape apiFixture = map shape (map (\<lambda>p. p\<lparr>Pubkey := ''k''\<rparr>) apiFixture)"
    by (simp add: shape_def apiFixture_def)
  from h UpdatePortforwarding_idempotent
    [of test_pf apiFixture stale_firewall V4 TCP "map (\<lambda>p. p\<lparr>Pubkey := ''k''\<rparr>) apiFixture"
        empty_firewall]
  show ?thesis by blast
qed

subsection \<open>AddPortforwarding, then RemovePortforwarding\<close>

lemma not_holds_rules_for:
  assumes "\<not> holds_rules_for p fw" and "address f p \<noteq> []"
  shows "filter (\<lambda>r. to_destination r \<noteq> bare (address f p)) (chain f pr fw) = chain f pr fw"
proof -
  from assms have "\<forall>r \<in> set (chain f pr fw). to_destination r \<noteq> bare (address f p)"
    by (cases f; cases pr) (auto simp: holds_rules_for_def list_ex_iff)
  then show ?thesis by (simp add: filter_id_conv)
qed

text \<open>
  Claim C8, as stated, fails: on a firewall that already holds the peer's rules (the peer
  was added before), adding the peer and removing it deletes the earlier rules too, since
  the removal deletes every rule for the peer's addresses.
\<close>

theorem Add_Remove_round_trip_counterexample:
  "rule_table
     (RemovePortforwarding test_pf (apiFixture ! 0)
       (AddPortforwarding test_pf (apiFixture ! 0)
         (AddPortforwarding test_pf (apiFixture ! 0) empty_firewall))) \<noteq>
   rule_table (AddPortforwarding test_pf (apiFixture ! 0) empty_firewall)"
proof
  assume "rule_table
     (RemovePortforwarding test_pf (apiFixture ! 0)
       (AddPortforwarding test_pf (apiFixture ! 0)
         (AddPortforwarding test_pf (apiFixture ! 0) empty_firewall))) =
   rule_table (AddPortforwarding test_pf (apiFixture ! 0) empty_firewall)"
  then have "chain V4 TCP
     (RemovePortforwarding test_pf (apiFixture ! 0)
       (AddPortforwarding test_pf (apiFixture ! 0)
         (AddPortforwarding test_pf (apiFixture ! 0) empty_firewall))) =
   chain V4 TCP (AddPortforwarding test_pf (apiFixture ! 0) empty_firewall)"
    unfolding rule_table_eq_iff by blast
  then show False by (simp add: eval_fixture)
qed

text \<open>
  Claim C8, amended. For every peer and every firewall state whose chains hold no rule for
  an address of the peer, \<open>AddPortforwarding\<close> followed by \<open>RemovePortforwarding\<close> restores
  the rule table exactly.
\<close>

theorem Add_Remove_round_trip:
  "\<not> holds_rules_for p fw \<Longrightarrow>
   rule_table (RemovePortforwarding c p (AddPortforwarding c p fw)) = rule_table fw"
  unfolding rule_table_eq_iff chain_RemovePortforwarding chain_AddPortforwarding
proof (intro allI)
  fix f pr
  assume h: "\<not> holds_rules_for p fw"
  show "clear_address p f (chain f pr fw @ peer_rules c f pr p) = chain f pr fw"
  proof (cases "address f p = []")
    case True
    then show ?thesis by (simp add: clear_address_def peer_rules_def)
  next
    case False
    then show ?thesis
      using not_holds_rules_for [OF h False, of pr]
      by (simp add: clear_address_def filter_peer_rules_other)
  qed
qed

text \<open>The theorem at the fixture, on a firewall that holds the rules of another peer.\<close>

theorem Add_Remove_round_trip_witness:
  "\<not> holds_rules_for (apiFixture ! 0) other_firewall \<and>
   rule_table (RemovePortforwarding test_pf (apiFixture ! 0)
       (AddPortforwarding test_pf (apiFixture ! 0) other_firewall)) = rule_table other_firewall"
proof -
  have h: "\<not> holds_rules_for (apiFixture ! 0) other_firewall"
    by (simp add: holds_rules_for_def chain_def other_firewall_def empty_firewall_def
        apiFixture_def address_def bare_def)
  from h Add_Remove_round_trip [OF h, of test_pf] show ?thesis by blast
qed

section \<open>Properties of the main package\<close>

subsection \<open>Traces and the API client\<close>

lemma synchronize_trace_count:
  "count_list (trace (synchronize m s)) Call_GetWireguardPeers =
   count_list (trace s) Call_GetWireguardPeers + 1"
  by (simp add: synchronize_def emit_def Let_def split: option.split prod.split sum.split)

lemma synchronize_trace_no_start:
  "Call_Subscribe \<in> set (trace (synchronize m s)) \<longleftrightarrow> Call_Subscribe \<in> set (trace s)"
  "Call_NewTicker i d \<in> set (trace (synchronize m s)) \<longleftrightarrow> Call_NewTicker i d \<in> set (trace s)"
  "Go_worker \<in> set (trace (synchronize m s)) \<longleftrightarrow> Go_worker \<in> set (trace s)"
  by (simp_all add: synchronize_def emit_def Let_def split: option.split prod.split sum.split)

lemma synchronize_api: "api (synchronize m s) = api s"
  by (simp add: synchronize_def emit_def Let_def split: option.split prod.split sum.split)

lemma handleEvent_api: "api (handleEvent m event s) = api s"
  by (simp add: handleEvent_def emit_def Let_def)

lemma main_after_construction:
  assumes "\<not> version fl" and "statsd_New m (statsdAddress fl) r = None"
    and "interfaces fl \<noteq> []"
    and "wireguard_New m (Split (interfaces fl) CHR '','') r = Inr w"
    and "portforward_New m (portForwardingChainPrefix fl) (portForwardingIpsetIPv4 fl)
           (portForwardingIpsetIPv6 fl) r = Inr p"
  shows "main m appVersion fl r =
     (let s = synchronize m
                \<lparr>api = new_API fl, wg = w, pf = p, server = r,
                 trace = [Printf (''starting wg-manager '' @ appVersion)]\<rparr>
      in case s_Subscribe m (new_Subscriber fl) (server s) of
           (Some err, r1) \<Rightarrow>
             Exited 1 (trace s @
               [Call_Subscribe, Printf (''error connecting to message-queue'' @ err)])
         | (None, r1) \<Rightarrow>
             Serving (s\<lparr>server := r1,
                        trace := trace s @
                          [Call_Subscribe, Call_NewTicker (interval fl) (delay fl), Go_worker]\<rparr>))"
  using assms by (simp add: main_def emit_def Let_def split: option.split prod.split)

lemma fetch_failure_leaves_managers:
  "a_GetWireguardPeers m (api s) (server s) = (Inl err, r1) \<Longrightarrow>
   wg (synchronize m s) = wg s \<and> pf (synchronize m s) = pf s \<and>
   trace (synchronize m s) = trace s @
     [Call_GetWireguardPeers, Increment ''error_getting_peers'',
      Printf (''error getting peers '' @ err), Send ''synchronize_time'']"
  by (simp add: synchronize_def emit_def)

lemma main_Serving_api:
  "main m appVersion fl r = Serving s \<Longrightarrow> api s = new_API fl"
  by (auto simp: main_def emit_def Let_def synchronize_api
      split: if_splits option.splits sum.splits prod.splits)

lemma synchronize_scripted_server: "server (synchronize scripted s) = server s"
  by (simp add: synchronize_def scripted_def emit_def Let_def
      split: option.split prod.split sum.split)

lemma scripted_constructors:
  "statsd_New scripted addr r = None"
  "present_interfaces r = [''wg0''] \<Longrightarrow>
     wireguard_New scripted [''wg0''] r = Inr [(''wg0'', [])]"
  "portforward_New scripted prefix s4 s6 r =
     Inr (\<lparr>chainPrefix = prefix, ipsetIPv4 = s4, ipsetIPv6 = s6\<rparr>, empty_firewall)"
  "s_Subscribe scripted sub r = (subscribe_reply r, r)"
  "a_GetWireguardPeers scripted a r = (peers_reply r, r)"
  "a_PostWireguardConnections scripted a keys r = (post_reply r, r)"
  by (simp_all add: scripted_def)

lemma Split_wg0: "Split ''wg0'' CHR '','' = [''wg0'']"
  by simp

lemma default_flags_sel:
  "\<not> version default_flags" "interfaces default_flags = ''wg0''"
  "apiTimeout default_flags = 30000000000" "interval default_flags = 60000000000"
  "\<not> version short_interval" "interfaces short_interval = ''wg0''"
  "apiTimeout short_interval = 30000000000" "interval short_interval = 10000000000"
  by (simp_all add: default_flags_def short_interval_def Second_def Minute_def)

lemma outside_sel:
  "present_interfaces quiet = [''wg0'']" "subscribe_reply quiet = None"
  "peers_reply quiet = Inr apiFixture" "post_reply quiet = None"
  "present_interfaces hung = [''wg0'']" "subscribe_reply hung = None"
  "peers_reply hung = Inl ''context deadline exceeded''"
  "present_interfaces deaf = [''wg0'']" "subscribe_reply deaf = Some '': connection refused''"
  "peers_reply unheard = Inr apiFixture" "post_reply unheard = Some ''502 Bad Gateway''"
  by (simp_all add: quiet_def hung_def deaf_def unheard_def)

lemma main_scripted:
  assumes "\<not> version fl" and "interfaces fl = ''wg0''" and "present_interfaces r = [''wg0'']"
  shows "main scripted appVersion fl r =
     (let s = synchronize scripted
                \<lparr>api = new_API fl, wg = [(''wg0'', [])],
                 pf = (\<lparr>chainPrefix = portForwardingChainPrefix fl,
                        ipsetIPv4 = portForwardingIpsetIPv4 fl,
                        ipsetIPv6 = portForwardingIpsetIPv6 fl\<rparr>, empty_firewall),
                 server = r, trace = [Printf (''starting wg-manager '' @ appVersion)]\<rparr>
      in case subscribe_reply r of
           Some err \<Rightarrow>
             Exited 1 (trace s @
               [Call_Subscribe, Printf (''error connecting to message-queue'' @ err)])
         | None \<Rightarrow>
             Serving (s\<lparr>trace := trace s @
                          [Call_Subscribe, Call_NewTicker (interval fl) (delay fl), Go_worker]\<rparr>))"
proof -
  have w: "wireguard_New scripted (Split (interfaces fl) CHR '','') r = Inr [(''wg0'', [])]"
    using assms by (simp add: scripted_constructors)
  have i: "interfaces fl \<noteq> []" using assms by simp
  show ?thesis
    by (subst main_after_construction [OF assms(1) scripted_constructors(1) i w scripted_constructors(3)])
      (simp add: Let_def scripted_constructors synchronize_scripted_server split: option.split)
qed

lemma synchronize_calls_with_client:
  "synchronize m s =
   synchronize (m\<lparr>a_GetWireguardPeers := \<lambda>c. a_GetWireguardPeers m (api s),
                   a_PostWireguardConnections := \<lambda>c. a_PostWireguardConnections m (api s)\<rparr>) s"
  by (simp add: synchronize_def emit_def Let_def split: option.split prod.split sum.split)

lemma handleEvent_calls_no_API:
  "handleEvent (m\<lparr>a_GetWireguardPeers := g, a_PostWireguardConnections := h\<rparr>) event s =
   handleEvent m event s"
  by (simp add: handleEvent_def emit_def Let_def)

lemma deadline_new_API:
  "deadline (new_API fl) = (if 0 < apiTimeout fl then Some (apiTimeout fl) else None)"
  by (simp add: deadline_def new_API_def)

lemma no_timeout_sel:
  "\<not> version no_timeout" "interfaces no_timeout = ''wg0''" "apiTimeout no_timeout = 0"
  by (simp_all add: no_timeout_def default_flags_def)

lemma answering_after_sel:
  "statsd_New (answering_after l) addr r = None"
  "present_interfaces r = [''wg0''] \<Longrightarrow>
     wireguard_New (answering_after l) [''wg0''] r = Inr [(''wg0'', [])]"
  "portforward_New (answering_after l) prefix s4 s6 r =
     Inr (\<lparr>chainPrefix = prefix, ipsetIPv4 = s4, ipsetIPv6 = s6\<rparr>, empty_firewall)"
  "s_Subscribe (answering_after l) sub r = (subscribe_reply r, r)"
  "a_GetWireguardPeers (answering_after l) c r =
     (if expires c l then (Inl ''context deadline exceeded'', r) else (peers_reply r, r))"
  by (simp_all add: answering_after_def scripted_def)

lemma synchronize_answering_after_server: "server (synchronize (answering_after l) s) = server s"
  by (simp add: synchronize_def answering_after_def scripted_def emit_def Let_def
      split: option.split prod.split sum.split)

lemma main_answering_after_Serving:
  assumes "\<not> version fl" and "interfaces fl = ''wg0''"
  shows "is_Serving (main (answering_after l) appVersion fl quiet)"
proof -
  have w: "wireguard_New (answering_after l) (Split (interfaces fl) CHR '','') quiet =
      Inr [(''wg0'', [])]"
    using assms by (simp add: answering_after_sel outside_sel)
  have i: "interfaces fl \<noteq> []" using assms by simp
  show ?thesis
    by (subst main_after_construction [OF assms(1) answering_after_sel(1) i w answering_after_sel(3)])
      (simp add: Let_def answering_after_sel synchronize_answering_after_server outside_sel)
qed

subsection \<open>synchronize\<close>

text \<open>
  Claim C2. In every full-sync cycle in which the fetch of the desired peer list fails,
  \<open>synchronize\<close> counts the error (\<^verbatim>\<open>error_getting_peers\<close>), logs it and returns: no
  method of either manager is called, nothing is reported, and the state of the WireGuard
  manager and of the Portforward manager is what it was before the cycle.
\<close>

theorem synchronize_fetch_failure:
  "a_GetWireguardPeers m (api s) (server s) = (Inl err, r1) \<Longrightarrow>
   synchronize m s =
     s\<lparr>server := r1,
       trace := trace s @
         [Call_GetWireguardPeers, Increment ''error_getting_peers'',
          Printf (''error getting peers '' @ err), Send ''synchronize_time'']\<rparr> \<and>
   wg (synchronize m s) = wg s \<and> pf (synchronize m s) = pf s"
  by (simp add: synchronize_def emit_def)

text \<open>The theorem in the scripted world whose control plane times out.\<close>

theorem synchronize_fetch_failure_witness:
  "a_GetWireguardPeers scripted (api (fresh hung)) (server (fresh hung)) =
     (Inl ''context deadline exceeded'', hung) \<and>
   synchronize scripted (fresh hung) =
     (fresh hung)\<lparr>server := hung,
       trace := trace (fresh hung) @
         [Call_GetWireguardPeers, Increment ''error_getting_peers'',
          Printf (''error getting peers '' @ ''context deadline exceeded''),
          Send ''synchronize_time'']\<rparr> \<and>
   wg (synchronize scripted (fresh hung)) = wg (fresh hung) \<and>
   pf (synchronize scripted (fresh hung)) = pf (fresh hung)"
proof -
  have h: "a_GetWireguardPeers scripted (api (fresh hung)) (server (fresh hung)) =
     (Inl ''context deadline exceeded'', hung)"
    by (simp add: scripted_constructors outside_sel fresh_def)
  from h synchronize_fetch_failure [OF h] show ?thesis by blast
qed

text \<open>
  Claim C3. In every full-sync cycle whose fetch succeeds, \<open>synchronize\<close> calls, in this
  order, \<^verbatim>\<open>wg.UpdatePeers\<close> with the fetched list (keeping the connected keys it
  returns), \<^verbatim>\<open>pf.UpdatePortforwarding\<close> with the same list, and
  \<^verbatim>\<open>a.PostWireguardConnections\<close> with those connected keys. If the report fails, the
  error is counted and logged, and the managers keep the state the two updates gave them,
  as they do when the report succeeds.
\<close>

theorem synchronize_success:
  "a_GetWireguardPeers m (api s) (server s) = (Inr peers, r1) \<Longrightarrow>
   wg_UpdatePeers m peers (wg s) = (connectedKeys, w1) \<Longrightarrow>
   a_PostWireguardConnections m (api s) connectedKeys r1 = (posted, r2) \<Longrightarrow>
   synchronize m s =
     s\<lparr>wg := w1, pf := pf_UpdatePortforwarding m peers (pf s), server := r2,
       trace := trace s @
         [Call_GetWireguardPeers, Send ''get_wireguard_peers_time'',
          Call_UpdatePeers peers, Send ''update_peers_time'',
          Call_UpdatePortforwarding peers, Send ''update_portforwarding_time'',
          Call_PostWireguardConnections connectedKeys] @
         (case posted of
            Some err \<Rightarrow> [Increment ''error_posting_connections'',
                         Printf (''error posting connections '' @ err)]
          | None \<Rightarrow> [Send ''post_wireguard_connections_time'']) @
         [Send ''synchronize_time'']\<rparr>"
  by (simp add: synchronize_def emit_def Let_def split: option.split)

text \<open>The theorem in the scripted world whose control plane rejects the report.\<close>

theorem synchronize_success_witness:
  "a_GetWireguardPeers scripted (api (fresh unheard)) (server (fresh unheard)) =
     (Inr apiFixture, unheard) \<and>
   wg_UpdatePeers scripted apiFixture (wg (fresh unheard)) =
     ([], [(''wg0'', [\<lparr>PublicKey = ''YWFhYWFhYWFhYWFhYWFhYWFhYWFhYWFhYWFhYWFhYWE='',
                        AllowedIPs = [''10.99.0.1/32'', ''fc00:bbbb:bbbb:bb01::1/128''],
                        recent_handshake = False\<rparr>])]) \<and>
   a_PostWireguardConnections scripted (api (fresh unheard)) [] unheard =
     (Some ''502 Bad Gateway'', unheard) \<and>
   synchronize scripted (fresh unheard) =
     (fresh unheard)
       \<lparr>wg := [(''wg0'', [\<lparr>PublicKey = ''YWFhYWFhYWFhYWFhYWFhYWFhYWFhYWFhYWFhYWFhYWE='',
                           AllowedIPs = [''10.99.0.1/32'', ''fc00:bbbb:bbbb:bb01::1/128''],
                           recent_handshake = False\<rparr>])],
        pf := pf_UpdatePortforwarding scripted apiFixture (pf (fresh unheard)),
        server := unheard,
        trace := trace (fresh unheard) @
          [Call_GetWireguardPeers, Send ''get_wireguard_peers_time'',
           Call_UpdatePeers apiFixture, Send ''update_peers_time'',
           Call_UpdatePortforwarding apiFixture, Send ''update_portforwarding_time'',
           Call_PostWireguardConnections []] @
          (case Some ''502 Bad Gateway'' of
             Some err \<Rightarrow> [Increment ''error_posting_connections'',
                          Printf (''error posting connections '' @ err)]
           | None \<Rightarrow> [Send ''post_wireguard_connections_time'']) @
          [Send ''synchronize_time'']\<rparr>"
proof -
  have h1: "a_GetWireguardPeers scripted (api (fresh unheard)) (server (fresh unheard)) =
     (Inr apiFixture, unheard)"
    by (simp add: scripted_constructors outside_sel fresh_def)
  have h2: "wg_UpdatePeers scripted apiFixture (wg (fresh unheard)) =
     ([], [(''wg0'', [\<lparr>PublicKey = ''YWFhYWFhYWFhYWFhYWFhYWFhYWFhYWFhYWFhYWFhYWE='',
                        AllowedIPs = [''10.99.0.1/32'', ''fc00:bbbb:bbbb:bb01::1/128''],
                        recent_handshake = False\<rparr>])])"
    by (simp add: scripted_def fresh_def UpdatePeers_def install_def allowed_ips_def
        apiFixture_def)
  have h3: "a_PostWireguardConnections scripted (api (fresh unheard)) [] unheard =
     (Some ''502 Bad Gateway'', unheard)"
    by (simp add: scripted_constructors outside_sel)
  from h1 h2 h3 synchronize_success [OF h1 h2 h3] show ?thesis by blast
qed

subsection \<open>handleEvent\<close>

text \<open>
  Claim C4. For every delivered event: an ADD event calls \<^verbatim>\<open>wg.AddPeer\<close> and then
  \<^verbatim>\<open>pf.AddPortforwarding\<close>; a REMOVE event calls \<^verbatim>\<open>wg.RemovePeer\<close> and then
  \<^verbatim>\<open>pf.RemovePortforwarding\<close>; an event whose action is none of ADD, REMOVE and
  UPDATE\_PORTS changes nothing at all.
\<close>

theorem handleEvent_actions:
  "(Action event = ''ADD'' \<longrightarrow>
      handleEvent m event s =
        s\<lparr>wg := wg_AddPeer m (Peer event) (wg s),
          pf := pf_AddPortforwarding m (Peer event) (pf s),
          trace := trace s @
            [Call_AddPeer (Peer event), Send ''add_event_add_peer_time'',
             Call_AddPortforwarding (Peer event), Send ''add_event_add_portforwarding_time'']\<rparr>) \<and>
   (Action event = ''REMOVE'' \<longrightarrow>
      handleEvent m event s =
        s\<lparr>wg := wg_RemovePeer m (Peer event) (wg s),
          pf := pf_RemovePortforwarding m (Peer event) (pf s),
          trace := trace s @
            [Call_RemovePeer (Peer event), Send ''remove_event_remove_peer_time'',
             Call_RemovePortforwarding (Peer event),
             Send ''remove_event_remove_portforwarding_time'']\<rparr>) \<and>
   (Action event \<noteq> ''ADD'' \<and> Action event \<noteq> ''REMOVE'' \<and> Action event \<noteq> ''UPDATE_PORTS'' \<longrightarrow>
      handleEvent m event s = s)"
  by (simp add: handleEvent_def emit_def Let_def)

text \<open>The theorem at an ADD, a REMOVE and a PING event for the test's peer.\<close>

theorem handleEvent_actions_witness:
  "Action \<lparr>Action = ''ADD'', Peer = apiFixture ! 0\<rparr> = ''ADD'' \<and>
   wg (handleEvent scripted \<lparr>Action = ''ADD'', Peer = apiFixture ! 0\<rparr> (fresh quiet)) =
     AddPeer (apiFixture ! 0) [(''wg0'', [])] \<and>
   pf (handleEvent scripted \<lparr>Action = ''ADD'', Peer = apiFixture ! 0\<rparr> (fresh quiet)) =
     (test_pf, AddPortforwarding test_pf (apiFixture ! 0) empty_firewall) \<and>
   Action \<lparr>Action = ''REMOVE'', Peer = apiFixture ! 0\<rparr> = ''REMOVE'' \<and>
   trace (handleEvent scripted \<lparr>Action = ''REMOVE'', Peer = apiFixture ! 0\<rparr> (fresh quiet)) =
     [Call_RemovePeer (apiFixture ! 0), Send ''remove_event_remove_peer_time'',
      Call_RemovePortforwarding (apiFixture ! 0),
      Send ''remove_event_remove_portforwarding_time''] \<and>
   Action \<lparr>Action = ''PING'', Peer = apiFixture ! 0\<rparr> \<noteq> ''ADD'' \<and>
   Action \<lparr>Action = ''PING'', Peer = apiFixture ! 0\<rparr> \<noteq> ''REMOVE'' \<and>
   Action \<lparr>Action = ''PING'', Peer = apiFixture ! 0\<rparr> \<noteq> ''UPDATE_PORTS'' \<and>
   handleEvent scripted \<lparr>Action = ''PING'', Peer = apiFixture ! 0\<rparr> (fresh quiet) = fresh quiet"
  using handleEvent_actions [of "\<lparr>Action = ''ADD'', Peer = apiFixture ! 0\<rparr>" scripted "fresh quiet"]
    handleEvent_actions [of "\<lparr>Action = ''REMOVE'', Peer = apiFixture ! 0\<rparr>" scripted "fresh quiet"]
    handleEvent_actions [of "\<lparr>Action = ''PING'', Peer = apiFixture ! 0\<rparr>" scripted "fresh quiet"]
  by (simp add: scripted_def fresh_def)

text \<open>
  Claim C5. For every UPDATE\_PORTS event, \<open>handleEvent\<close> calls
  \<^verbatim>\<open>pf.UpdateSinglePeerPortforwarding\<close> and nothing else: the state of the WireGuard
  manager after the event is the state before it.
\<close>

theorem handleEvent_UPDATE_PORTS:
  "Action event = ''UPDATE_PORTS'' \<Longrightarrow>
   handleEvent m event s =
     s\<lparr>pf := pf_UpdateSinglePeerPortforwarding m (Peer event) (pf s),
       trace := trace s @
         [Call_UpdateSinglePeerPortforwarding (Peer event),
          Send ''update_ports_event_update_portforwarding_time'']\<rparr> \<and>
   wg (handleEvent m event s) = wg s"
  by (simp add: handleEvent_def emit_def Let_def)

text \<open>The theorem at an UPDATE\_PORTS event that gives the test's peer its new ports.\<close>

theorem handleEvent_UPDATE_PORTS_witness:
  "Action \<lparr>Action = ''UPDATE_PORTS'',
           Peer = (apiFixture ! 0)\<lparr>Ports := rulesUpdatedPortsFixture\<rparr>\<rparr> = ''UPDATE_PORTS'' \<and>
   wg (handleEvent scripted
         \<lparr>Action = ''UPDATE_PORTS'', Peer = (apiFixture ! 0)\<lparr>Ports := rulesUpdatedPortsFixture\<rparr>\<rparr>
         (fresh quiet)) = [(''wg0'', [])] \<and>
   pf (handleEvent scripted
         \<lparr>Action = ''UPDATE_PORTS'', Peer = (apiFixture ! 0)\<lparr>Ports := rulesUpdatedPortsFixture\<rparr>\<rparr>
         (fresh quiet)) =
     (test_pf, UpdateSinglePeerPortforwarding test_pf
        ((apiFixture ! 0)\<lparr>Ports := rulesUpdatedPortsFixture\<rparr>) empty_firewall)"
  using handleEvent_UPDATE_PORTS
    [of "\<lparr>Action = ''UPDATE_PORTS'', Peer = (apiFixture ! 0)\<lparr>Ports := rulesUpdatedPortsFixture\<rparr>\<rparr>"
        scripted "fresh quiet"]
  by (simp add: scripted_def fresh_def)

subsection \<open>main\<close>

text \<open>
  Claim C10. When the flags are parsed and the metrics client and the two managers are
  constructed, \<open>main\<close> runs \<open>synchronize\<close> once, and only then subscribes to the
  message queue, creates the jittered ticker and starts the worker: the trace up to the
  subscription holds one fetch of the peer list and no subscription, ticker or worker. If
  the subscription succeeds the process serves, whatever the initial synchronization did
  (a failed fetch leaves the managers as constructed); if the subscription fails the
  process exits with status 1.
\<close>

theorem main_initial_synchronize:
  "\<not> version fl \<Longrightarrow> statsd_New m (statsdAddress fl) r = None \<Longrightarrow> interfaces fl \<noteq> [] \<Longrightarrow>
   wireguard_New m (Split (interfaces fl) CHR '','') r = Inr w \<Longrightarrow>
   portforward_New m (portForwardingChainPrefix fl) (portForwardingIpsetIPv4 fl)
     (portForwardingIpsetIPv6 fl) r = Inr p \<Longrightarrow>
   s = synchronize m
         \<lparr>api = new_API fl, wg = w, pf = p, server = r,
          trace = [Printf (''starting wg-manager '' @ appVersion)]\<rparr> \<Longrightarrow>
   count_list (trace s) Call_GetWireguardPeers = 1 \<and>
   Call_Subscribe \<notin> set (trace s) \<and> Call_NewTicker i d \<notin> set (trace s) \<and>
   Go_worker \<notin> set (trace s) \<and>
   (s_Subscribe m (new_Subscriber fl) (server s) = (None, r1) \<longrightarrow>
      main m appVersion fl r =
        Serving (s\<lparr>server := r1,
                   trace := trace s @
                     [Call_Subscribe, Call_NewTicker (interval fl) (delay fl), Go_worker]\<rparr>)) \<and>
   (s_Subscribe m (new_Subscriber fl) (server s) = (Some err, r1) \<longrightarrow>
      main m appVersion fl r =
        Exited 1 (trace s @
          [Call_Subscribe, Printf (''error connecting to message-queue'' @ err)])) \<and>
   (a_GetWireguardPeers m (new_API fl) r = (Inl err', r2) \<longrightarrow> wg s = w \<and> pf s = p)"
proof (intro conjI impI)
  assume a: "\<not> version fl" "statsd_New m (statsdAddress fl) r = None" "interfaces fl \<noteq> []"
    "wireguard_New m (Split (interfaces fl) CHR '','') r = Inr w"
    "portforward_New m (portForwardingChainPrefix fl) (portForwardingIpsetIPv4 fl)
       (portForwardingIpsetIPv6 fl) r = Inr p"
    and s: "s = synchronize m
         \<lparr>api = new_API fl, wg = w, pf = p, server = r,
          trace = [Printf (''starting wg-manager '' @ appVersion)]\<rparr>"
  show "count_list (trace s) Call_GetWireguardPeers = 1"
    by (simp add: s synchronize_trace_count)
  show "Call_Subscribe \<notin> set (trace s)" "Call_NewTicker i d \<notin> set (trace s)"
    "Go_worker \<notin> set (trace s)"
    by (simp_all add: s synchronize_trace_no_start)
  {
    assume "s_Subscribe m (new_Subscriber fl) (server s) = (None, r1)"
    then show "main m appVersion fl r =
        Serving (s\<lparr>server := r1,
                   trace := trace s @
                     [Call_Subscribe, Call_NewTicker (interval fl) (delay fl), Go_worker]\<rparr>)"
      unfolding s main_after_construction [OF a] by (simp add: Let_def)
  }
  {
    assume "s_Subscribe m (new_Subscriber fl) (server s) = (Some err, r1)"
    then show "main m appVersion fl r =
        Exited 1 (trace s @
          [Call_Subscribe, Printf (''error connecting to message-queue'' @ err)])"
      unfolding s main_after_construction [OF a] by (simp add: Let_def)
  }
  {
    assume "a_GetWireguardPeers m (new_API fl) r = (Inl err', r2)"
    then show "wg s = w" "pf s = p"
      using fetch_failure_leaves_managers
        [of m "\<lparr>api = new_API fl, wg = w, pf = p, server = r,
                trace = [Printf (''starting wg-manager '' @ appVersion)]\<rparr>" err' r2]
      by (simp_all add: s)
  }
qed

text \<open>
  The theorem with the default flags in the scripted world whose control plane times out
  (the process serves), and in the one that refuses the subscription (the process exits).
\<close>

theorem main_initial_synchronize_witness:
  "\<not> version default_flags \<and> statsd_New scripted (statsdAddress default_flags) hung = None \<and>
   interfaces default_flags \<noteq> [] \<and>
   wireguard_New scripted (Split (interfaces default_flags) CHR '','') hung = Inr [(''wg0'', [])] \<and>
   portforward_New scripted (portForwardingChainPrefix default_flags)
     (portForwardingIpsetIPv4 default_flags) (portForwardingIpsetIPv6 default_flags) hung =
     Inr (test_pf, empty_firewall) \<and>
   a_GetWireguardPeers scripted (new_API default_flags) hung =
     (Inl ''context deadline exceeded'', hung) \<and>
   main scripted ''1.0'' default_flags hung =
     Serving \<lparr>api = new_API default_flags, wg = [(''wg0'', [])], pf = (test_pf, empty_firewall),
              server = hung,
              trace = [Printf ''starting wg-manager 1.0'', Call_GetWireguardPeers,
                       Increment ''error_getting_peers'',
                       Printf ''error getting peers context deadline exceeded'',
                       Send ''synchronize_time'', Call_Subscribe,
                       Call_NewTicker 60000000000 45000000000, Go_worker]\<rparr> \<and>
   is_Exited (main scripted ''1.0'' default_flags deaf) \<and>
   status (main scripted ''1.0'' default_flags deaf) = 1"
proof -
  let ?s0 = "\<lambda>r. \<lparr>api = new_API default_flags, wg = [(''wg0'', [])],
                  pf = (test_pf, empty_firewall), server = r,
                  trace = [Printf (''starting wg-manager '' @ ''1.0'')]\<rparr>
             :: (Wireguard, Portforward \<times> firewall, outside, string list) world"
  have v: "\<not> version default_flags" and i: "interfaces default_flags \<noteq> []"
    by (simp_all add: default_flags_sel)
  have st: "statsd_New scripted (statsdAddress default_flags) r = None" for r
    by (simp add: scripted_constructors)
  have w: "wireguard_New scripted (Split (interfaces default_flags) CHR '','') r =
      Inr [(''wg0'', [])]" if "present_interfaces r = [''wg0'']" for r
    using that by (simp add: default_flags_sel scripted_constructors)
  have p: "portforward_New scripted (portForwardingChainPrefix default_flags)
     (portForwardingIpsetIPv4 default_flags) (portForwardingIpsetIPv6 default_flags) r =
     Inr (test_pf, empty_firewall)" for r
    by (simp add: scripted_constructors default_flags_def test_pf_def)
  have g: "a_GetWireguardPeers scripted (new_API default_flags) hung =
     (Inl ''context deadline exceeded'', hung)"
    by (simp add: scripted_constructors outside_sel)
  have sub1: "s_Subscribe scripted (new_Subscriber default_flags)
      (server (synchronize scripted (?s0 hung))) = (None, hung)"
    by (simp add: scripted_constructors synchronize_scripted_server outside_sel)
  have sub2: "s_Subscribe scripted (new_Subscriber default_flags)
      (server (synchronize scripted (?s0 deaf))) = (Some '': connection refused'', deaf)"
    by (simp add: scripted_constructors synchronize_scripted_server outside_sel)
  have sync: "synchronize scripted (?s0 hung) =
      (?s0 hung)\<lparr>trace := trace (?s0 hung) @
         [Call_GetWireguardPeers, Increment ''error_getting_peers'',
          Printf (''error getting peers '' @ ''context deadline exceeded''),
          Send ''synchronize_time'']\<rparr>"
    by (simp add: synchronize_def emit_def scripted_constructors outside_sel)
  note t1 = main_initial_synchronize
    [OF v st i w [OF outside_sel(5)] p refl, of "''1.0''" _ _ hung _ "''context deadline exceeded''" hung]
  note t2 = main_initial_synchronize
    [OF v st i w [OF outside_sel(8)] p refl, of "''1.0''" _ _ deaf "'': connection refused''"]
  from t1 sub1 have m1: "main scripted ''1.0'' default_flags hung =
      Serving ((synchronize scripted (?s0 hung))\<lparr>server := hung,
         trace := trace (synchronize scripted (?s0 hung)) @
           [Call_Subscribe, Call_NewTicker (interval default_flags) (delay default_flags),
            Go_worker]\<rparr>)"
    by blast
  from t2 sub2 have m2: "main scripted ''1.0'' default_flags deaf =
      Exited 1 (trace (synchronize scripted (?s0 deaf)) @
        [Call_Subscribe, Printf (''error connecting to message-queue'' @ '': connection refused'')])"
    by blast
  have m1': "main scripted ''1.0'' default_flags hung =
     Serving \<lparr>api = new_API default_flags, wg = [(''wg0'', [])], pf = (test_pf, empty_firewall),
              server = hung,
              trace = [Printf ''starting wg-manager 1.0'', Call_GetWireguardPeers,
                       Increment ''error_getting_peers'',
                       Printf ''error getting peers context deadline exceeded'',
                       Send ''synchronize_time'', Call_Subscribe,
                       Call_NewTicker 60000000000 45000000000, Go_worker]\<rparr>"
    unfolding m1 sync by (simp add: default_flags_def Second_def Minute_def)
  show ?thesis
    using v st [of hung] i w [OF outside_sel(5)] p [of hung] g m1' m2 by simp
qed

text \<open>
  Claim C9, as stated, fails: the flags \<^verbatim>\<open>-interval\<close> and \<^verbatim>\<open>-api-timeout\<close> are
  never compared. With \<^verbatim>\<open>-interval 10s\<close> and the default timeout of 30 seconds the
  process serves, and the timeout of its API client is not shorter than the interval.
\<close>

theorem api_timeout_counterexample:
  "is_Serving (main scripted ''1.0'' short_interval quiet) \<and>
   \<not> Client_Timeout (api (running (main scripted ''1.0'' short_interval quiet))) <
       interval short_interval"
proof -
  have "main scripted ''1.0'' short_interval quiet =
     Serving ((synchronize scripted
                \<lparr>api = new_API short_interval, wg = [(''wg0'', [])],
                 pf = (\<lparr>chainPrefix = portForwardingChainPrefix short_interval,
                        ipsetIPv4 = portForwardingIpsetIPv4 short_interval,
                        ipsetIPv6 = portForwardingIpsetIPv6 short_interval\<rparr>, empty_firewall),
                 server = quiet, trace = [Printf (''starting wg-manager '' @ ''1.0'')]\<rparr>)
        \<lparr>trace := trace (synchronize scripted
                \<lparr>api = new_API short_interval, wg = [(''wg0'', [])],
                 pf = (\<lparr>chainPrefix = portForwardingChainPrefix short_interval,
                        ipsetIPv4 = portForwardingIpsetIPv4 short_interval,
                        ipsetIPv6 = portForwardingIpsetIPv6 short_interval\<rparr>, empty_firewall),
                 server = quiet, trace = [Printf (''starting wg-manager '' @ ''1.0'')]\<rparr>) @
           [Call_Subscribe, Call_NewTicker (interval short_interval) (delay short_interval),
            Go_worker]\<rparr>)"
    by (subst main_scripted [OF default_flags_sel(5) default_flags_sel(6) outside_sel(1)])
      (simp add: Let_def outside_sel)
  then show ?thesis
    by (simp add: synchronize_api new_API_def default_flags_sel)
qed

text \<open>
  Claim C9, amended. In every configuration under which the system runs, every call to the
  control-plane API is made with the client built at startup, whose \<^verbatim>\<open>Timeout\<close> is the
  value of the \<^verbatim>\<open>-api-timeout\<close> flag; neither \<open>synchronize\<close> nor \<open>handleEvent\<close>
  changes the client, and \<open>handleEvent\<close> calls no API method. The calls have a hard
  timeout, of that value, exactly when the value is positive: with zero or a negative
  value Go's HTTP client sets no deadline. With the default flags the hard timeout is 30
  seconds, shorter than the interval of one minute; the program checks neither that the
  flag is positive nor that it is shorter than the interval. A fetch that returns an
  error, as a request whose deadline expires does, ends the cycle: the error is counted
  and logged, nothing else is called and the managers are left as they were.
\<close>

theorem api_timeout_from_flag:
  "(main m appVersion fl r = Serving s \<longrightarrow>
      Client_Timeout (api s) = apiTimeout fl \<and>
      deadline (api s) = (if 0 < apiTimeout fl then Some (apiTimeout fl) else None)) \<and>
   api (synchronize m s) = api s \<and> api (handleEvent m event s) = api s \<and>
   synchronize m s =
     synchronize (m\<lparr>a_GetWireguardPeers := \<lambda>c. a_GetWireguardPeers m (api s),
                     a_PostWireguardConnections := \<lambda>c. a_PostWireguardConnections m (api s)\<rparr>) s \<and>
   handleEvent (m\<lparr>a_GetWireguardPeers := g, a_PostWireguardConnections := h\<rparr>) event s =
     handleEvent m event s \<and>
   apiTimeout default_flags < interval default_flags \<and>
   deadline (new_API default_flags) = Some (Second * 30) \<and>
   (a_GetWireguardPeers m (api s) (server s) = (Inl err, r1) \<longrightarrow>
      wg (synchronize m s) = wg s \<and> pf (synchronize m s) = pf s \<and>
      trace (synchronize m s) = trace s @
        [Call_GetWireguardPeers, Increment ''error_getting_peers'',
         Printf (''error getting peers '' @ err), Send ''synchronize_time''])"
proof (intro conjI impI)
  assume "main m appVersion fl r = Serving s"
  then have a: "api s = new_API fl" by (rule main_Serving_api)
  show "Client_Timeout (api s) = apiTimeout fl" by (simp add: a new_API_def)
  show "deadline (api s) = (if 0 < apiTimeout fl then Some (apiTimeout fl) else None)"
    by (simp only: a deadline_new_API)
next
  show "api (synchronize m s) = api s" by (rule synchronize_api)
  show "api (handleEvent m event s) = api s" by (rule handleEvent_api)
  show "synchronize m s =
     synchronize (m\<lparr>a_GetWireguardPeers := \<lambda>c. a_GetWireguardPeers m (api s),
                     a_PostWireguardConnections := \<lambda>c. a_PostWireguardConnections m (api s)\<rparr>) s"
    by (rule synchronize_calls_with_client)
  show "handleEvent (m\<lparr>a_GetWireguardPeers := g, a_PostWireguardConnections := h\<rparr>) event s =
     handleEvent m event s"
    by (rule handleEvent_calls_no_API)
  show "apiTimeout default_flags < interval default_flags"
    by (simp add: default_flags_sel)
  show "deadline (new_API default_flags) = Some (Second * 30)"
    by (simp add: deadline_new_API default_flags_sel Second_def)
next
  assume f: "a_GetWireguardPeers m (api s) (server s) = (Inl err, r1)"
  show "wg (synchronize m s) = wg s" "pf (synchronize m s) = pf s"
    "trace (synchronize m s) = trace s @
        [Call_GetWireguardPeers, Increment ''error_getting_peers'',
         Printf (''error getting peers '' @ err), Send ''synchronize_time'']"
    using fetch_failure_leaves_managers [OF f] by simp_all
qed

text \<open>
  The theorem in a scripted world whose control plane takes two minutes to answer: with
  the default flags the process serves with a deadline of 30 seconds and a cycle's fetch
  fails when it expires; with \<^verbatim>\<open>-api-timeout 0\<close> the process serves with no deadline.
\<close>

theorem api_timeout_from_flag_witness:
  "main (answering_after (Minute * 2)) ''1.0'' default_flags quiet =
     Serving (running (main (answering_after (Minute * 2)) ''1.0'' default_flags quiet)) \<and>
   deadline (api (running (main (answering_after (Minute * 2)) ''1.0'' default_flags quiet))) =
     Some 30000000000 \<and>
   main (answering_after (Minute * 2)) ''1.0'' no_timeout quiet =
     Serving (running (main (answering_after (Minute * 2)) ''1.0'' no_timeout quiet)) \<and>
   deadline (api (running (main (answering_after (Minute * 2)) ''1.0'' no_timeout quiet))) = None \<and>
   a_GetWireguardPeers (answering_after (Minute * 2)) (api (fresh quiet)) (server (fresh quiet)) =
     (Inl ''context deadline exceeded'', quiet) \<and>
   trace (synchronize (answering_after (Minute * 2)) (fresh quiet)) =
     [Call_GetWireguardPeers, Increment ''error_getting_peers'',
      Printf ''error getting peers context deadline exceeded'', Send ''synchronize_time'']"
proof -
  let ?m = "answering_after (Minute * 2)"
  have h1: "main ?m ''1.0'' default_flags quiet =
      Serving (running (main ?m ''1.0'' default_flags quiet))"
    using main_answering_after_Serving [OF default_flags_sel(1) default_flags_sel(2)] by simp
  have h2: "main ?m ''1.0'' no_timeout quiet =
      Serving (running (main ?m ''1.0'' no_timeout quiet))"
    using main_answering_after_Serving [OF no_timeout_sel(1) no_timeout_sel(2)] by simp
  have h3: "a_GetWireguardPeers ?m (api (fresh quiet)) (server (fresh quiet)) =
      (Inl ''context deadline exceeded'', quiet)"
    by (simp add: answering_after_sel expires_def deadline_new_API default_flags_sel fresh_def
        Minute_def Second_def)
  from h1 api_timeout_from_flag
    [of ?m "''1.0''" default_flags quiet "running (main ?m ''1.0'' default_flags quiet)"]
  have c1: "deadline (api (running (main ?m ''1.0'' default_flags quiet))) =
      (if 0 < apiTimeout default_flags then Some (apiTimeout default_flags) else None)"
    by blast
  from h2 api_timeout_from_flag
    [of ?m "''1.0''" no_timeout quiet "running (main ?m ''1.0'' no_timeout quiet)"]
  have c2: "deadline (api (running (main ?m ''1.0'' no_timeout quiet))) =
      (if 0 < apiTimeout no_timeout then Some (apiTimeout no_timeout) else None)"
    by blast
  from h3 api_timeout_from_flag
    [of ?m _ _ _ "fresh quiet" _ _ _ "''context deadline exceeded''" quiet]
  have c3: "trace (synchronize ?m (fresh quiet)) = trace (fresh quiet) @
      [Call_GetWireguardPeers, Increment ''error_getting_peers'',
       Printf (''error getting peers '' @ ''context deadline exceeded''),
       Send ''synchronize_time'']"
    by blast
  show ?thesis
    using h1 h2 h3 c1 c2 c3 by (simp add: default_flags_sel no_timeout_sel fresh_def)
qed

end
